theory Spec2Isabelle
  imports Main
begin

section \<open>Data model of the MCP server management services\<close>

text \<open>
  A resource is a \<open>URI\<close>. The registry of the workspace service is a \<open>ResourceMap\<close>
  built without a key function, so its keys are compared through \<open>resource.toString()\<close>:
  a URI is modelled by that string and the registry by a map on strings. The comparison
  \<open>uriIdentityService.extUri.isEqual\<close> belongs to another service and is a parameter
  of every function that calls it.
\<close>

type_synonym uri = string

text \<open>
  \<open>IWorkspaceFolder\<close>. The resource of a folder's MCP configuration is
  \<open>folder.toResource(WORKSPACE_STANDALONE_CONFIGURATIONS[MCP_CONFIGURATION_KEY])\<close>; both
  \<open>toResource\<close> and the table are declared outside the sources, so the function from a
  folder to that resource is the parameter \<open>toResource\<close>.
\<close>

record workspace_folder =
  folder_uri :: uri

text \<open>
  Modelled from the spec: the enumeration \<open>ConfigurationTarget\<close> is declared in
  \<open>platform/configuration/common/configuration\<close>, which is not among the sources. The spec
  names the targets workspace, workspace folder, remote-user, user and local-user, and
  "any other target value"; the members below carry the names the source uses for them,
  none of which is falsy. An install target is such a member or a workspace folder.
\<close>

datatype configuration_target =
    APPLICATION | USER | USER_LOCAL | USER_REMOTE | WORKSPACE | WORKSPACE_FOLDER
  | DEFAULT | MEMORY

datatype install_target = Target configuration_target | TargetFolder workspace_folder

text \<open>\<open>LocalMcpServerScope\<close>.\<close>

datatype scope = User | RemoteUser | Workspace

text \<open>
  Every failure of the services is a JavaScript \<open>Error\<close> thrown (or a rejected promise);
  the constructors stand for the messages of the source:
  \<open>IllegalTarget t\<close> for \<open>`Illegal target: ${options.target}`\<close>,
  \<open>IllegalScope s\<close> for \<open>`Illegal target: ${server.scope}`\<close>,
  \<open>McpResourceRequired\<close> for \<open>'MCP resource is required'\<close>,
  \<open>NoServiceFound r\<close> for \<open>`No MCP management service found for resource: ${r}`\<close>,
  \<open>NotSupported\<close> for \<open>'Not supported'\<close>,
  and \<open>ServiceError m\<close> for whatever an underlying service fails with.
\<close>

datatype error =
    IllegalTarget install_target
  | IllegalScope scope
  | McpResourceRequired
  | NoServiceFound uri
  | NotSupported
  | ServiceError string

text \<open>
  Modelled from the spec: \<open>ILocalMcpServer\<close>, \<open>InstallMcpServerEvent\<close>,
  \<open>UninstallMcpServerEvent\<close>, \<open>DidUninstallMcpServerEvent\<close>,
  \<open>InstallMcpServerResult\<close>, \<open>InstallOptions\<close> and \<open>IMcpServer\<close> are declared in
  \<open>platform/mcp/common/mcpManagement\<close>, which is not among the sources. The spec describes
  an installed server as a name, the resource it belongs to and opaque configuration data,
  and the event payloads as \<open>(name, mcpResource, local?)\<close>; the fields below are the ones
  the source reads and writes.
\<close>

record local_server =
  name :: string
  mcpResource :: uri
  config :: string

record mcp_event =
  ev_name :: string
  ev_mcpResource :: uri

record 'l install_result =
  res_name :: string
  res_mcpResource :: uri
  res_local :: "'l option"

record install_options =
  opt_mcpResource :: "uri option"

type_synonym mcp_server = string

text \<open>\<open>McpResourceTarget\<close>: the two configuration targets the workspace service passes on.\<close>

datatype mcp_resource_target = TARGET_WORKSPACE | TARGET_WORKSPACE_FOLDER

section \<open>The workspace aggregator: \<open>WorkspaceMcpManagementService\<close>\<close>

text \<open>
  One \<open>WorkspaceMcpResourceManagementService\<close> is created per tracked resource, from a
  target and the resource. What such a service answers to \<open>getInstalled()\<close> and what
  its \<open>install\<close> does are inherited from \<open>AbstractMcpManagementService\<close>, which is not
  among the sources: the answers are inputs of the model.
\<close>

record resource_service =
  svc_target :: mcp_resource_target
  svc_mcpResource :: uri

text \<open>What the per-resource services answer to \<open>getInstalled()\<close>: a list, or a failure.\<close>

type_synonym fetcher = "uri \<Rightarrow> error + local_server list"

text \<open>
  Everything the aggregator does that an observer can see, in the order it happens:
  the four emitters, the warning log, and the changes of the registry.
\<close>

datatype ws_effect =
    FireInstall mcp_event
  | FireDidInstall "local_server install_result list"
  | FireUninstall mcp_event
  | FireDidUninstall mcp_event
  | LogWarn uri
  | RegistrySet uri
  | RegistryDelete uri
  | Dispose uri

record ws_state =
  allMcpServers :: "local_server list"
  workspaceConfiguration :: "uri option"
  workspaceMcpManagementServices :: "uri \<rightharpoonup> resource_service"
  effects :: "ws_effect list"

definition ws_initial :: ws_state where
  "ws_initial = \<lparr> allMcpServers = [], workspaceConfiguration = None,
     workspaceMcpManagementServices = Map.empty, effects = [] \<rparr>"

definition emit :: "ws_effect \<Rightarrow> ws_state \<Rightarrow> ws_state" where
  "emit e st = st\<lparr> effects := effects st @ [e] \<rparr>"

text \<open>The events a per-resource service fires, and the listeners \<open>addWorkspaceService\<close>
  attaches to them.\<close>

datatype svc_event =
    SvcInstall mcp_event
  | SvcDidInstall "local_server install_result list"
  | SvcUninstall mcp_event
  | SvcDidUninstall mcp_event

definition locals_of :: "'l install_result list \<Rightarrow> 'l list" where
  "locals_of e = concat (map (\<lambda>r. case res_local r of None \<Rightarrow> [] | Some l \<Rightarrow> [l]) e)"

text \<open>\<open>Array.prototype.findIndex\<close>, with \<open>None\<close> for \<open>-1\<close>.\<close>

fun findIndex :: "('a \<Rightarrow> bool) \<Rightarrow> 'a list \<Rightarrow> nat option" where
  "findIndex p [] = None"
| "findIndex p (x # xs) =
     (if p x then Some 0 else map_option Suc (findIndex p xs))"

text \<open>\<open>xs.splice(i, 1)\<close>.\<close>

definition splice1 :: "nat \<Rightarrow> 'a list \<Rightarrow> 'a list" where
  "splice1 i xs = take i xs @ drop (Suc i) xs"

fun on_service_event :: "(uri \<Rightarrow> uri \<Rightarrow> bool) \<Rightarrow> svc_event \<Rightarrow> ws_state \<Rightarrow> ws_state" where
  "on_service_event isEqual (SvcInstall e) st = emit (FireInstall e) st"
| "on_service_event isEqual (SvcDidInstall e) st =
     emit (FireDidInstall e) (st\<lparr> allMcpServers := allMcpServers st @ locals_of e \<rparr>)"
| "on_service_event isEqual (SvcUninstall e) st = emit (FireUninstall e) st"
| "on_service_event isEqual (SvcDidUninstall e) st =
     (case findIndex (\<lambda>server. isEqual (mcpResource server) (ev_mcpResource e)
                               \<and> name server = ev_name e) (allMcpServers st) of
        None \<Rightarrow> st
      | Some index \<Rightarrow>
          emit (FireDidUninstall e)
            (st\<lparr> allMcpServers := splice1 index (allMcpServers st) \<rparr>))"

definition to_install_result :: "local_server \<Rightarrow> local_server install_result" where
  "to_install_result server =
     \<lparr> res_name = name server, res_mcpResource = mcpResource server, res_local = Some server \<rparr>"

definition to_uninstall_event :: "local_server \<Rightarrow> mcp_event" where
  "to_uninstall_event server = \<lparr> ev_name = name server, ev_mcpResource = mcpResource server \<rparr>"

text \<open>
  \<open>addWorkspaceService(mcpResource, target)\<close> is an \<open>async\<close> method with one suspension,
  at \<open>await service.getInstalled()\<close>. Before it, the method returns when the registry
  already has the resource, and creates the service otherwise. After it, once the fetch
  has settled with \<open>fetched\<close>, the rest runs without another suspension: the \<open>try\<close>
  block or its \<open>catch\<close>, the listeners, and the entry in the registry. That rest is
  \<open>addWorkspaceService_settled\<close>; it does not look at the registry again.
\<close>

definition addWorkspaceService_settled ::
  "uri \<Rightarrow> mcp_resource_target \<Rightarrow> error + local_server list \<Rightarrow> ws_state \<Rightarrow> ws_state" where
  "addWorkspaceService_settled r target fetched st =
     (let service = \<lparr> svc_target = target, svc_mcpResource = r \<rparr>;
          st1 = (case fetched of
                   Inr installedServers \<Rightarrow>
                     let s = st\<lparr> allMcpServers := allMcpServers st @ installedServers \<rparr>
                     in if length installedServers > 0
                        then emit (FireDidInstall (map to_install_result installedServers)) s
                        else s
                 | Inl err \<Rightarrow> emit (LogWarn r) st)
      in emit (RegistrySet r)
           (st1\<lparr> workspaceMcpManagementServices :=
                    (workspaceMcpManagementServices st1)(r \<mapsto> service) \<rparr>))"

text \<open>
  The whole call, when nothing else touches the aggregator while it is suspended.
  The argument \<open>fetched\<close> is what \<open>service.getInstalled()\<close> of the new service answers.
\<close>

definition addWorkspaceService ::
  "uri \<Rightarrow> mcp_resource_target \<Rightarrow> error + local_server list \<Rightarrow> ws_state \<Rightarrow> ws_state" where
  "addWorkspaceService r target fetched st =
     (if workspaceMcpManagementServices st r \<noteq> None then st
      else addWorkspaceService_settled r target fetched st)"

text \<open>
  \<open>removeWorkspaceService(mcpResource)\<close> reads the registry, and when it finds an entry it
  suspends once, at \<open>await serviceItem.service.getInstalled()\<close>. Once the fetch has
  settled with \<open>fetched\<close>, the rest runs without another suspension: the \<open>try\<close> block or
  its \<open>catch\<close>, the deletion of the entry and the disposal of the service item found
  before the suspension. That rest is \<open>removeWorkspaceService_settled\<close>.
\<close>

definition removeWorkspaceService_settled ::
  "(uri \<Rightarrow> uri \<Rightarrow> bool) \<Rightarrow> uri \<Rightarrow> error + local_server list \<Rightarrow> ws_state \<Rightarrow> ws_state" where
  "removeWorkspaceService_settled isEqual r fetched st =
     (let st1 = (case fetched of
                   Inr installedServers \<Rightarrow>
                     let s = st\<lparr> allMcpServers :=
                               filter (\<lambda>server. \<not> list_ex (\<lambda>uninstalled.
                                   isEqual (mcpResource uninstalled) (mcpResource server))
                                 installedServers) (allMcpServers st) \<rparr>
                     in s\<lparr> effects := effects s
                             @ map (\<lambda>server. FireDidUninstall (to_uninstall_event server))
                                 installedServers \<rparr>
                 | Inl err \<Rightarrow> emit (LogWarn r) st);
          st2 = emit (RegistryDelete r)
                  (st1\<lparr> workspaceMcpManagementServices :=
                           (workspaceMcpManagementServices st1)(r := None) \<rparr>)
      in emit (Dispose r) st2)"

text \<open>
  The whole call, when nothing else touches the aggregator while it is suspended.
  The argument \<open>fetched\<close> is what \<open>serviceItem.service.getInstalled()\<close> answers.
\<close>

definition removeWorkspaceService ::
  "(uri \<Rightarrow> uri \<Rightarrow> bool) \<Rightarrow> uri \<Rightarrow> error + local_server list \<Rightarrow> ws_state \<Rightarrow> ws_state" where
  "removeWorkspaceService isEqual r fetched st =
     (case workspaceMcpManagementServices st r of
        None \<Rightarrow> st
      | Some serviceItem \<Rightarrow> removeWorkspaceService_settled isEqual r fetched st)"

text \<open>\<open>IWorkspaceFoldersChangeEvent\<close>; the source reads \<open>added\<close> and \<open>removed\<close>.\<close>

record folders_change_event =
  added :: "workspace_folder list"
  removed :: "workspace_folder list"

subsection \<open>Folder changes, with their suspensions\<close>

text \<open>
  \<open>onDidChangeWorkspaceFolders(e)\<close> is itself \<open>async\<close>, and the listener that calls it
  does not wait for it. It starts \<open>removeWorkspaceService\<close> for every removed folder at
  once, under \<open>Promise.allSettled\<close>: every call reads the registry and suspends at its
  fetch before any of them goes on. When all of them have settled, the handler resumes and
  starts \<open>addWorkspaceService\<close> for every added folder in the same way: every call tests
  the registry before any of them writes to it. A later notification may arrive while
  calls of an earlier one are still suspended.

  The listener of workbench-state changes, which handles the resource of the workspace
  configuration in the way a folder's resource is handled, is not part of the model.

  The model keeps, beside the state of the aggregator, the calls that are suspended at
  their fetch and the handlers that wait for their removals. A handler is numbered when
  it starts; a suspended removal remembers its handler, its resource and the service
  item it found; a suspended addition remembers its resource and its target.
\<close>

datatype pending_call =
    PendingRemove nat uri resource_service
  | PendingAdd uri mcp_resource_target

fun call_resource :: "pending_call \<Rightarrow> uri" where
  "call_resource (PendingRemove h r serviceItem) = r"
| "call_resource (PendingAdd r target) = r"

fun is_removal_of :: "nat \<Rightarrow> pending_call \<Rightarrow> bool" where
  "is_removal_of h (PendingRemove k r serviceItem) = (k = h)"
| "is_removal_of h (PendingAdd r target) = False"

record system =
  aggregator :: ws_state
  calls :: "pending_call list"
  handlers :: "(nat \<times> workspace_folder list) list"
  next_handler :: nat

definition quiescent :: "ws_state \<Rightarrow> system" where
  "quiescent st = \<lparr> aggregator = st, calls = [], handlers = [], next_handler = 0 \<rparr>"

text \<open>
  What happens next is decided outside the aggregator: a notification arrives; the fetch of
  the suspended call at some position settles, with an answer or a failure; or a handler
  whose removals have all settled resumes.
\<close>

datatype action =
    Notify folders_change_event
  | Settle nat "error + local_server list"
  | Resume nat

text \<open>The removals a notification starts: one suspended call for every removed folder
  whose resource has an entry in the registry; the other calls return at once.\<close>

definition removals_started ::
  "(workspace_folder \<Rightarrow> uri) \<Rightarrow> nat \<Rightarrow> workspace_folder list \<Rightarrow> ws_state \<Rightarrow> pending_call list" where
  "removals_started toResource h folders st =
     concat (map (\<lambda>folder.
       case workspaceMcpManagementServices st (toResource folder) of
         None \<Rightarrow> []
       | Some serviceItem \<Rightarrow> [PendingRemove h (toResource folder) serviceItem]) folders)"

text \<open>The additions a resuming handler starts: one suspended call for every added folder
  whose resource has no entry in the registry; the other calls return at once.\<close>

definition additions_started ::
  "(workspace_folder \<Rightarrow> uri) \<Rightarrow> workspace_folder list \<Rightarrow> ws_state \<Rightarrow> pending_call list" where
  "additions_started toResource folders st =
     concat (map (\<lambda>folder.
       if workspaceMcpManagementServices st (toResource folder) \<noteq> None then []
       else [PendingAdd (toResource folder) TARGET_WORKSPACE_FOLDER]) folders)"

text \<open>The rest of a suspended call, run when its fetch has settled.\<close>

fun settle_call ::
  "(uri \<Rightarrow> uri \<Rightarrow> bool) \<Rightarrow> pending_call \<Rightarrow> error + local_server list \<Rightarrow> ws_state \<Rightarrow> ws_state" where
  "settle_call isEqual (PendingRemove h r serviceItem) fetched st =
     removeWorkspaceService_settled isEqual r fetched st"
| "settle_call isEqual (PendingAdd r target) fetched st =
     addWorkspaceService_settled r target fetched st"

text \<open>
  One step. An action that does not apply (no suspended call at that position, no such
  handler, or a handler with removals still suspended) leaves everything as it is.
\<close>

fun ws_step ::
  "(uri \<Rightarrow> uri \<Rightarrow> bool) \<Rightarrow> (workspace_folder \<Rightarrow> uri) \<Rightarrow> action \<Rightarrow> system \<Rightarrow> system" where
  "ws_step isEqual toResource (Notify e) sys =
     sys\<lparr> calls := calls sys
                @ removals_started toResource (next_handler sys) (removed e) (aggregator sys),
          handlers := handlers sys @ [(next_handler sys, added e)],
          next_handler := Suc (next_handler sys) \<rparr>"
| "ws_step isEqual toResource (Settle i fetched) sys =
     (if i < length (calls sys)
      then sys\<lparr> aggregator := settle_call isEqual (calls sys ! i) fetched (aggregator sys),
                calls := splice1 i (calls sys) \<rparr>
      else sys)"
| "ws_step isEqual toResource (Resume h) sys =
     (case map_of (handlers sys) h of
        None \<Rightarrow> sys
      | Some folders \<Rightarrow>
          if list_ex (is_removal_of h) (calls sys) then sys
          else sys\<lparr> calls := calls sys @ additions_started toResource folders (aggregator sys),
                    handlers := filter (\<lambda>entry. fst entry \<noteq> h) (handlers sys) \<rparr>)"


text \<open>
  Settling every suspended call, in the order in which the calls were started; \<open>fetch\<close>
  gives what the service of each resource answers.
\<close>

definition settle_first ::
  "(uri \<Rightarrow> uri \<Rightarrow> bool) \<Rightarrow> (workspace_folder \<Rightarrow> uri) \<Rightarrow> fetcher \<Rightarrow> system \<Rightarrow> system" where
  "settle_first isEqual toResource fetch sys =
     (case calls sys of
        [] \<Rightarrow> sys
      | c # cs \<Rightarrow> ws_step isEqual toResource (Settle 0 (fetch (call_resource c))) sys)"

definition settle_all ::
  "(uri \<Rightarrow> uri \<Rightarrow> bool) \<Rightarrow> (workspace_folder \<Rightarrow> uri) \<Rightarrow> fetcher \<Rightarrow> system \<Rightarrow> system" where
  "settle_all isEqual toResource fetch sys =
     (settle_first isEqual toResource fetch ^^ length (calls sys)) sys"

text \<open>
  One notification handled from its start to its end with nothing else in between: the
  removals are started and settle, the handler resumes, the additions are started and
  settle.
\<close>

definition handle_alone ::
  "(uri \<Rightarrow> uri \<Rightarrow> bool) \<Rightarrow> (workspace_folder \<Rightarrow> uri) \<Rightarrow> fetcher
     \<Rightarrow> folders_change_event \<Rightarrow> system \<Rightarrow> system" where
  "handle_alone isEqual toResource fetch e sys =
     (let s1 = ws_step isEqual toResource (Notify e) sys;
          s2 = settle_all isEqual toResource fetch s1;
          s3 = ws_step isEqual toResource (Resume (next_handler sys)) s2
      in settle_all isEqual toResource fetch s3)"

text \<open>
  \<open>onDidChangeWorkspaceFolders(e)\<close> as a function of the state of the aggregator, when no
  call is suspended as it starts and nothing else happens until it ends.
\<close>

definition onDidChangeWorkspaceFolders ::
  "(uri \<Rightarrow> uri \<Rightarrow> bool) \<Rightarrow> (workspace_folder \<Rightarrow> uri) \<Rightarrow> fetcher
     \<Rightarrow> folders_change_event \<Rightarrow> ws_state \<Rightarrow> ws_state" where
  "onDidChangeWorkspaceFolders isEqual toResource fetch e st =
     aggregator (handle_alone isEqual toResource fetch e (quiescent st))"

definition Workspace_getInstalled :: "ws_state \<Rightarrow> local_server list" where
  "Workspace_getInstalled st = allMcpServers st"

text \<open>
  \<open>WorkspaceMcpManagementService.install(server, options)\<close>. The per-resource service's
  \<open>install\<close> is the parameter \<open>svc_install\<close>: it answers with a result and with the
  events the service fires meanwhile, which reach the listeners of
  \<open>addWorkspaceService\<close>.
\<close>

type_synonym svc_installer =
  "resource_service \<Rightarrow> mcp_server \<Rightarrow> install_options \<Rightarrow> (error + local_server) \<times> svc_event list"

definition Workspace_install ::
  "(uri \<Rightarrow> uri \<Rightarrow> bool) \<Rightarrow> svc_installer \<Rightarrow> mcp_server \<Rightarrow> install_options option
     \<Rightarrow> ws_state \<Rightarrow> (error + local_server) \<times> ws_state" where
  "Workspace_install isEqual svc_install server options st =
     (case options of
        None \<Rightarrow> (Inl McpResourceRequired, st)
      | Some opts \<Rightarrow>
          (case opt_mcpResource opts of
             None \<Rightarrow> (Inl McpResourceRequired, st)
           | Some r \<Rightarrow>
               (case workspaceMcpManagementServices st r of
                  None \<Rightarrow> (Inl (NoServiceFound r), st)
                | Some mcpManagementServiceItem \<Rightarrow>
                    let (result, fired) = svc_install mcpManagementServiceItem server opts
                    in (result, foldl (\<lambda>s ev. on_service_event isEqual ev s) st fired))))"

type_synonym svc_uninstaller =
  "resource_service \<Rightarrow> local_server \<Rightarrow> (error + unit) \<times> svc_event list"

definition Workspace_uninstall ::
  "(uri \<Rightarrow> uri \<Rightarrow> bool) \<Rightarrow> svc_uninstaller \<Rightarrow> local_server
     \<Rightarrow> ws_state \<Rightarrow> (error + unit) \<times> ws_state" where
  "Workspace_uninstall isEqual svc_uninstall server st =
     (case workspaceMcpManagementServices st (mcpResource server) of
        None \<Rightarrow> (Inl (NoServiceFound (mcpResource server)), st)
      | Some mcpManagementServiceItem \<Rightarrow>
          let (result, fired) = svc_uninstall mcpManagementServiceItem server
          in (result, foldl (\<lambda>s ev. on_service_event isEqual ev s) st fired))"

text \<open>
  \<open>installFromGallery\<close> of both workspace classes: the body is the single statement
  \<open>throw new Error('Not supported')\<close>, whatever the arguments. The state of the
  per-resource service is not modelled further, so it is a type variable.
\<close>

definition Workspace_installFromGallery ::
  "mcp_server \<Rightarrow> install_options option \<Rightarrow> ws_state \<Rightarrow> (error + local_server) \<times> ws_state" where
  "Workspace_installFromGallery server options st = (Inl NotSupported, st)"

definition WorkspaceResource_installFromGallery ::
  "mcp_server \<Rightarrow> install_options option \<Rightarrow> 's \<Rightarrow> (error + local_server) \<times> 's" where
  "WorkspaceResource_installFromGallery server options st = (Inl NotSupported, st)"

subsection \<open>Reading a run of the aggregator\<close>

text \<open>What a service has installed, a failure counting as no server.\<close>

definition installed_of :: "fetcher \<Rightarrow> uri \<Rightarrow> local_server list" where
  "installed_of fetch r = (case fetch r of Inl err \<Rightarrow> [] | Inr servers \<Rightarrow> servers)"

text \<open>A state with the warnings taken out of its record of effects.\<close>

fun is_warning :: "ws_effect \<Rightarrow> bool" where
  "is_warning (LogWarn r) = True"
| "is_warning e = False"

definition without_warnings :: "ws_state \<Rightarrow> ws_state" where
  "without_warnings st = st\<lparr> effects := filter (\<lambda>e. \<not> is_warning e) (effects st) \<rparr>"




text \<open>The resources of the additions that are suspended at their fetch.\<close>

definition pending_additions :: "pending_call list \<Rightarrow> uri list" where
  "pending_additions cs =
     concat (map (\<lambda>c. case c of PendingAdd r t \<Rightarrow> [r] | PendingRemove h r item \<Rightarrow> []) cs)"

text \<open>
  An action is steady and free of races when a fetch that settles gives the answer
  \<open>fetch\<close> has for the resource of its call, and when a handler that resumes starts no
  addition for a resource while another addition for that resource is suspended.
\<close>

fun steady_action :: "fetcher \<Rightarrow> (workspace_folder \<Rightarrow> uri) \<Rightarrow> action \<Rightarrow> system \<Rightarrow> bool" where
  "steady_action fetch toResource (Notify e) sys = True"
| "steady_action fetch toResource (Settle i fetched) sys =
     (i < length (calls sys) \<longrightarrow> fetched = fetch (call_resource (calls sys ! i)))"
| "steady_action fetch toResource (Resume h) sys =
     (case map_of (handlers sys) h of
        None \<Rightarrow> True
      | Some folders \<Rightarrow>
          list_ex (is_removal_of h) (calls sys)
          \<or> distinct (pending_additions
                (calls sys @ additions_started toResource folders (aggregator sys))))"

fun steady_run ::
  "fetcher \<Rightarrow> (uri \<Rightarrow> uri \<Rightarrow> bool) \<Rightarrow> (workspace_folder \<Rightarrow> uri) \<Rightarrow> action list \<Rightarrow> system \<Rightarrow> bool" where
  "steady_run fetch isEqual toResource [] sys = True"
| "steady_run fetch isEqual toResource (a # as) sys =
     (steady_action fetch toResource a sys
      \<and> steady_run fetch isEqual toResource as (ws_step isEqual toResource a sys))"


section \<open>The facade: \<open>WorkbenchMcpManagementService\<close>\<close>

text \<open>\<open>IWorkbenchLocalMcpServer\<close>: a local server with an optional scope.\<close>

record workbench_local_server = local_server +
  scope :: "scope option"

record workbench_install_options = install_options +
  target :: "install_target option"

text \<open>
  Modelled from the spec: \<open>IUserDataProfile\<close> is declared in
  \<open>platform/userDataProfile/common/userDataProfile\<close>, which is not among the sources; a
  profile "exposes a resource identifier". The fields are the ones the source reads.
\<close>

record profile =
  profile_id :: string
  isDefault :: bool
  profile_mcpResource :: uri
  extensionsResource :: uri

text \<open>
  The collaborators of the facade, as it sees them during one call:
  \<open>uriIdentityService.extUri.isEqual\<close>,
  \<open>userDataProfileService.currentProfile\<close>,
  \<open>userDataProfilesService.profiles\<close>,
  \<open>remoteUserDataProfilesService.getRemoteProfile\<close> and \<open>getRemoteProfiles\<close>,
  \<open>workspaceContextService.getWorkspace().configuration\<close>,
  the \<open>toResource\<close> of folders,
  \<open>mcpManagementService.getInstalled\<close>, and \<open>remoteMcpManagementService\<close>, which
  is undefined when there is no remote connection (given by its \<open>getInstalled\<close>).
\<close>

record facade_env =
  isEqual :: "uri \<Rightarrow> uri \<Rightarrow> bool"
  currentProfile :: profile
  profiles :: "profile list"
  getRemoteProfile :: "profile \<Rightarrow> profile"
  getRemoteProfiles :: "profile list"
  workspace_configuration :: "uri option"
  toResource :: "workspace_folder \<Rightarrow> uri"
  mcpManagementService :: "uri \<Rightarrow> error + local_server list"
  remoteMcpManagementService :: "(uri option \<Rightarrow> error + local_server list) option"

text \<open>\<open>getRemoteMcpResource(mcpResource?)\<close>.\<close>

definition getRemoteMcpResource :: "facade_env \<Rightarrow> uri option \<Rightarrow> uri option" where
  "getRemoteMcpResource env resource =
     (if resource = None \<and> isDefault (currentProfile env) then None
      else
        let r = (case resource of
                   None \<Rightarrow> profile_mcpResource (currentProfile env)
                 | Some m \<Rightarrow> m)
        in case find (\<lambda>p. isEqual env (profile_mcpResource p) r) (profiles env) of
             Some p \<Rightarrow> Some (extensionsResource (getRemoteProfile env p))
           | None \<Rightarrow>
               map_option extensionsResource
                 (find (\<lambda>p. isEqual env (extensionsResource p) r) (getRemoteProfiles env)))"

definition toWorkspaceMcpServer :: "local_server \<Rightarrow> scope \<Rightarrow> workbench_local_server" where
  "toWorkspaceMcpServer server sc = local_server.extend server \<lparr> scope = Some sc \<rparr>"

text \<open>
  \<open>WorkbenchMcpManagementService.getInstalled()\<close>. \<open>Promise.all\<close> rejects as soon as
  one of the three queries does; when several fail, the model reports the first in the
  order of the array. The workspace query is \<open>getInstalled()\<close> of the aggregator.
\<close>

definition Workbench_getInstalled ::
  "facade_env \<Rightarrow> ws_state \<Rightarrow> error + workbench_local_server list" where
  "Workbench_getInstalled env ws =
     (case mcpManagementService env (profile_mcpResource (currentProfile env)) of
        Inl e \<Rightarrow> Inl e
      | Inr userServers \<Rightarrow>
          (case (case remoteMcpManagementService env of
                   None \<Rightarrow> Inr []
                 | Some remote_getInstalled \<Rightarrow>
                     remote_getInstalled (getRemoteMcpResource env None)) of
             Inl e \<Rightarrow> Inl e
           | Inr remoteServers \<Rightarrow>
               let workspaceServers = Workspace_getInstalled ws
               in Inr (map (\<lambda>server. toWorkspaceMcpServer server User) userServers
                     @ map (\<lambda>server. toWorkspaceMcpServer server RemoteUser) remoteServers
                     @ map (\<lambda>server. toWorkspaceMcpServer server Workspace) workspaceServers)))"

text \<open>
  \<open>WorkbenchMcpManagementService.install(server, options)\<close> ends, when it does not throw,
  by returning the promise of the \<open>install\<close> of one underlying service. The model
  returns that delegation as a value: the scope of the service that is invoked, and the
  server and options it is invoked with.
\<close>

record install_call =
  call_scope :: scope
  call_server :: mcp_server
  call_options :: workbench_install_options

definition Workbench_install ::
  "facade_env \<Rightarrow> mcp_server \<Rightarrow> workbench_install_options option \<Rightarrow> error + install_call" where
  "Workbench_install env server options0 =
     (let options = (case options0 of
                       None \<Rightarrow> \<lparr> opt_mcpResource = None, target = None \<rparr>
                     | Some opts \<Rightarrow> opts)
      in case target options of
           Some (Target WORKSPACE) \<Rightarrow>
             (case workspace_configuration env of
                None \<Rightarrow> Inl (IllegalTarget (Target WORKSPACE))
              | Some resource \<Rightarrow>
                  Inr \<lparr> call_scope = Workspace, call_server = server,
                        call_options = options\<lparr> opt_mcpResource := Some resource \<rparr> \<rparr>)
         | Some (TargetFolder folder) \<Rightarrow>
             Inr \<lparr> call_scope = Workspace, call_server = server,
                   call_options = options\<lparr> opt_mcpResource := Some (toResource env folder) \<rparr> \<rparr>
         | Some (Target USER_REMOTE) \<Rightarrow>
             (if remoteMcpManagementService env = None
              then Inl (IllegalTarget (Target USER_REMOTE))
              else Inr \<lparr> call_scope = RemoteUser, call_server = server,
                         call_options = options\<lparr> opt_mcpResource :=
                           getRemoteMcpResource env (opt_mcpResource options) \<rparr> \<rparr>)
         | Some (Target t) \<Rightarrow>
             (if t \<noteq> USER \<and> t \<noteq> USER_LOCAL then Inl (IllegalTarget (Target t))
              else Inr \<lparr> call_scope = User, call_server = server,
                         call_options = options\<lparr> opt_mcpResource :=
                           Some (profile_mcpResource (currentProfile env)) \<rparr> \<rparr>)
         | None \<Rightarrow>
             Inr \<lparr> call_scope = User, call_server = server,
                   call_options = options\<lparr> opt_mcpResource :=
                     Some (profile_mcpResource (currentProfile env)) \<rparr> \<rparr>)"

subsection \<open>Event wiring of the facade\<close>

text \<open>
  The eight emitters of the facade, and what is fired on them: a single event, or a batch
  of install results. A listener of the constructor is modelled by the list of
  \<open>fire\<close> calls it makes, in order.
\<close>

datatype emitter =
    OnInstallMcpServer
  | OnDidInstallMcpServers
  | OnUninstallMcpServer
  | OnDidUninstallMcpServer
  | OnInstallMcpServerInCurrentProfile
  | OnDidInstallMcpServersInCurrentProfile
  | OnUninstallMcpServerInCurrentProfile
  | OnDidUninstallMcpServerInCurrentProfile

datatype payload =
    Single mcp_event
  | Batch "workbench_local_server install_result list"

type_synonym fired = "emitter \<times> payload"

text \<open>The object \<open>{ ...result, local: result.local ? toWorkspaceMcpServer(result.local, scope) : undefined }\<close>.\<close>

definition workbenchResult ::
  "scope \<Rightarrow> local_server install_result \<Rightarrow> workbench_local_server install_result" where
  "workbenchResult sc result =
     \<lparr> res_name = res_name result, res_mcpResource = res_mcpResource result,
       res_local = map_option (\<lambda>l. toWorkspaceMcpServer l sc) (res_local result) \<rparr>"

text \<open>Listeners of the user-scope service \<open>mcpManagementService\<close>.\<close>

definition inCurrentProfile :: "facade_env \<Rightarrow> uri \<Rightarrow> bool" where
  "inCurrentProfile env r = isEqual env r (profile_mcpResource (currentProfile env))"

definition user_onInstallMcpServer :: "facade_env \<Rightarrow> mcp_event \<Rightarrow> fired list" where
  "user_onInstallMcpServer env e =
     (OnInstallMcpServer, Single e)
     # (if inCurrentProfile env (ev_mcpResource e)
        then [(OnInstallMcpServerInCurrentProfile, Single e)] else [])"

definition user_onDidInstallMcpServers ::
  "facade_env \<Rightarrow> local_server install_result list \<Rightarrow> fired list" where
  "user_onDidInstallMcpServers env e =
     (let mcpServerInstallResult = map (workbenchResult User) e;
          mcpServerInstallResultInCurrentProfile =
            map (workbenchResult User)
              (filter (\<lambda>result. inCurrentProfile env (res_mcpResource result)) e)
      in (OnDidInstallMcpServers, Batch mcpServerInstallResult)
         # (if length mcpServerInstallResultInCurrentProfile \<noteq> 0
            then [(OnDidInstallMcpServersInCurrentProfile,
                   Batch mcpServerInstallResultInCurrentProfile)]
            else []))"

definition user_onUninstallMcpServer :: "facade_env \<Rightarrow> mcp_event \<Rightarrow> fired list" where
  "user_onUninstallMcpServer env e =
     (OnUninstallMcpServer, Single e)
     # (if inCurrentProfile env (ev_mcpResource e)
        then [(OnUninstallMcpServerInCurrentProfile, Single e)] else [])"

definition user_onDidUninstallMcpServer :: "facade_env \<Rightarrow> mcp_event \<Rightarrow> fired list" where
  "user_onDidUninstallMcpServer env e =
     (OnDidUninstallMcpServer, Single e)
     # (if inCurrentProfile env (ev_mcpResource e)
        then [(OnDidUninstallMcpServerInCurrentProfile, Single e)] else [])"

text \<open>Listeners of the workspace aggregator. The batch listener fires
  \<open>_onDidInstallMcpServersInCurrentProfile\<close> twice and \<open>_onDidInstallMcpServers\<close> not
  at all, as the source is written.\<close>

definition workspace_onInstallMcpServer :: "facade_env \<Rightarrow> mcp_event \<Rightarrow> fired list" where
  "workspace_onInstallMcpServer env e =
     [(OnInstallMcpServer, Single e), (OnInstallMcpServerInCurrentProfile, Single e)]"

definition workspace_onDidInstallMcpServers ::
  "facade_env \<Rightarrow> local_server install_result list \<Rightarrow> fired list" where
  "workspace_onDidInstallMcpServers env e =
     (let mcpServerInstallResult = map (workbenchResult Workspace) e
      in [(OnDidInstallMcpServersInCurrentProfile, Batch mcpServerInstallResult),
          (OnDidInstallMcpServersInCurrentProfile, Batch mcpServerInstallResult)])"

definition workspace_onUninstallMcpServer :: "facade_env \<Rightarrow> mcp_event \<Rightarrow> fired list" where
  "workspace_onUninstallMcpServer env e =
     [(OnUninstallMcpServer, Single e), (OnUninstallMcpServerInCurrentProfile, Single e)]"

definition workspace_onDidUninstallMcpServer :: "facade_env \<Rightarrow> mcp_event \<Rightarrow> fired list" where
  "workspace_onDidUninstallMcpServer env e =
     [(OnDidUninstallMcpServer, Single e), (OnDidUninstallMcpServerInCurrentProfile, Single e)]"

text \<open>
  Listeners of the remote service, registered only when it exists. Each resolves the
  remote counterpart of the current profile's resource first; without a counterpart the
  test is whether the current profile is the default one. The batch listener fires the
  whole batch on \<open>_onDidInstallMcpServersInCurrentProfile\<close> and nothing on
  \<open>_onDidInstallMcpServers\<close>, as the source is written.
\<close>

definition inCurrentRemoteProfile :: "facade_env \<Rightarrow> uri \<Rightarrow> bool" where
  "inCurrentRemoteProfile env r =
     (case getRemoteMcpResource env (Some (profile_mcpResource (currentProfile env))) of
        Some remoteMcpResource \<Rightarrow> isEqual env r remoteMcpResource
      | None \<Rightarrow> isDefault (currentProfile env))"

definition remote_onInstallMcpServer :: "facade_env \<Rightarrow> mcp_event \<Rightarrow> fired list" where
  "remote_onInstallMcpServer env e =
     (OnInstallMcpServer, Single e)
     # (if inCurrentRemoteProfile env (ev_mcpResource e)
        then [(OnInstallMcpServerInCurrentProfile, Single e)] else [])"

definition remote_onDidInstallMcpServers ::
  "facade_env \<Rightarrow> local_server install_result list \<Rightarrow> fired list" where
  "remote_onDidInstallMcpServers env e =
     (let mcpServerInstallResult = map (workbenchResult RemoteUser) e;
          mcpServerInstallResultInCurrentProfile =
            map (workbenchResult RemoteUser)
              (filter (\<lambda>result. inCurrentRemoteProfile env (res_mcpResource result)) e)
      in (OnDidInstallMcpServersInCurrentProfile, Batch mcpServerInstallResult)
         # (if length mcpServerInstallResultInCurrentProfile \<noteq> 0
            then [(OnDidInstallMcpServersInCurrentProfile,
                   Batch mcpServerInstallResultInCurrentProfile)]
            else []))"

definition remote_onUninstallMcpServer :: "facade_env \<Rightarrow> mcp_event \<Rightarrow> fired list" where
  "remote_onUninstallMcpServer env e =
     (OnUninstallMcpServer, Single e)
     # (if inCurrentRemoteProfile env (ev_mcpResource e)
        then [(OnUninstallMcpServerInCurrentProfile, Single e)] else [])"

definition remote_onDidUninstallMcpServer :: "facade_env \<Rightarrow> mcp_event \<Rightarrow> fired list" where
  "remote_onDidUninstallMcpServer env e =
     (OnDidUninstallMcpServer, Single e)
     # (if inCurrentRemoteProfile env (ev_mcpResource e)
        then [(OnDidUninstallMcpServerInCurrentProfile, Single e)] else [])"

text \<open>What a listener fired on one emitter, in order.\<close>

definition fired_on :: "emitter \<Rightarrow> fired list \<Rightarrow> payload list" where
  "fired_on em fs = map snd (filter (\<lambda>f. fst f = em) fs)"

text \<open>
  A listener re-emits a payload: once on the stream of all scopes, on the stream of the
  current profile exactly when \<open>in_profile\<close> holds, and on no other stream.
\<close>

definition reemits :: "emitter \<Rightarrow> emitter \<Rightarrow> payload \<Rightarrow> bool \<Rightarrow> fired list \<Rightarrow> bool" where
  "reemits all_scopes current_profile p in_profile fs \<longleftrightarrow>
     fired_on all_scopes fs = [p]
     \<and> fired_on current_profile fs = (if in_profile then [p] else [])
     \<and> (\<forall>em. em \<noteq> all_scopes \<and> em \<noteq> current_profile \<longrightarrow> fired_on em fs = [])"

section \<open>Notebook diff navigation: \<open>ChatEditingNotebookEditorWidgetIntegration\<close>\<close>

text \<open>
  Modelled from the spec: \<open>ICellDiffInfo\<close> and \<open>sortCellChanges\<close> are declared in
  \<open>notebookCellChanges\<close>, which is not among the sources. The spec describes per-cell
  change descriptors of type insert, delete, modified or unchanged, each carrying the
  line-level hunks of its diff, kept as a sorted sequence. The fields are the ones the
  source reads; a hunk is the line range it modifies; the sort is the parameter
  \<open>sortCellChanges\<close>.
\<close>

datatype change_type = Insert | Delete | Modified | Unchanged

type_synonym hunk = "nat \<times> nat"

record cell_diff_info =
  ctype :: change_type
  modifiedCellIndex :: "nat option"
  originalCellIndex :: "nat option"
  diff_changes :: "hunk list"

text \<open>
  The per-cell integration \<open>ChatEditingCodeEditorIntegration\<close> is not among the sources:
  its state is the type variable \<open>'i\<close>, and its operations \<open>next(false)\<close>,
  \<open>previous(false)\<close>, \<open>reveal(firstOrLast)\<close> and \<open>currentIndex.get()\<close> are
  parameters.
\<close>

record 'i nb_env =
  sortCellChanges :: "cell_diff_info list \<Rightarrow> cell_diff_info list"
  ci_next :: "'i \<Rightarrow> bool \<times> 'i"
  ci_previous :: "'i \<Rightarrow> bool \<times> 'i"
  ci_reveal :: "bool \<Rightarrow> 'i \<Rightarrow> 'i"
  ci_currentIndex :: "'i \<Rightarrow> int"

text \<open>
  The state of the widget that navigation reads and writes: the cell changes; the current
  change with its index inside the cell; the cells of \<open>notebookModel.cells\<close>, each given
  by its handle; the integrations (\<open>getCell\<close> goes from a cell index through
  \<open>notebookModel.cells\<close> to the map \<open>cellEditorIntegrations\<close>, so the map is kept by
  cell index); and the handles of the \<open>viewCells\<close> of the view model, \<open>None\<close> when
  \<open>notebookEditor.getViewModel()\<close> is undefined. Scrolling is not part of the state.
  Changes are JavaScript objects compared by identity; the model compares their contents,
  so the changes of one list are assumed to differ.
\<close>

record 'i widget =
  cellChanges :: "cell_diff_info list"
  currentChange :: "(cell_diff_info \<times> int) option"
  notebookCells :: "nat list"
  cellEditorIntegrations :: "nat \<rightharpoonup> 'i"
  viewCells :: "nat list option"

text \<open>Reading \<open>handle\<close> of an undefined cell throws a \<open>TypeError\<close>.\<close>

datatype nb_error = TypeError

text \<open>\<open>xs[i]\<close> of JavaScript: \<open>undefined\<close> outside the array.\<close>

definition at_index :: "'a list \<Rightarrow> int \<Rightarrow> 'a option" where
  "at_index xs i = (if 0 \<le> i \<and> i < int (length xs) then Some (xs ! nat i) else None)"

text \<open>\<open>Array.prototype.indexOf\<close>: \<open>-1\<close> when the element is absent.\<close>

fun indexOf :: "'a list \<Rightarrow> 'a \<Rightarrow> int" where
  "indexOf [] x = -1"
| "indexOf (y # ys) x =
     (if y = x then 0 else (let i = indexOf ys x in if i < 0 then -1 else i + 1))"

definition lastChangeIndex :: "cell_diff_info \<Rightarrow> int" where
  "lastChangeIndex change =
     (if ctype change = Modified then int (length (diff_changes change)) - 1 else 0)"

definition sorted_changes :: "'i nb_env \<Rightarrow> 'i widget \<Rightarrow> cell_diff_info list" where
  "sorted_changes env w =
     sortCellChanges env (filter (\<lambda>c. ctype c \<noteq> Unchanged) (cellChanges w))"

text \<open>
  \<open>getCell(modifiedCellIndex)\<close>: outside \<open>notebookModel.cells\<close> the cell is undefined and
  the map has no integration for it.
\<close>

definition getCell :: "'i widget \<Rightarrow> nat option \<Rightarrow> (nat \<times> 'i) option" where
  "getCell w idx =
     (case idx of
        None \<Rightarrow> None
      | Some i \<Rightarrow>
          if i < length (notebookCells w)
          then map_option (\<lambda>ci. (i, ci)) (cellEditorIntegrations w i)
          else None)"

text \<open>
  \<open>getCellViewModel(change)\<close>, as the handle of the view cell found. The callback of
  \<open>find\<close> reads \<open>cell.handle\<close>: with an undefined cell it throws as soon as it is
  called, that is, when there is a view model with at least one view cell.
\<close>

definition getCellViewModel :: "'i widget \<Rightarrow> cell_diff_info \<Rightarrow> nb_error + nat option" where
  "getCellViewModel w change =
     (if ctype change = Delete then Inr None
      else case modifiedCellIndex change of
             None \<Rightarrow> Inr None
           | Some i \<Rightarrow>
               (case viewCells w of
                  None \<Rightarrow> Inr None
                | Some cs \<Rightarrow>
                    (case at_index (notebookCells w) (int i) of
                       Some handle \<Rightarrow> Inr (find (\<lambda>c. c = handle) cs)
                     | None \<Rightarrow> if cs = [] then Inr None else Inl TypeError)))"

definition revealChange ::
  "'i widget \<Rightarrow> cell_diff_info \<Rightarrow> int \<Rightarrow> nb_error + bool \<times> 'i widget" where
  "revealChange w change indexInCell =
     (case ctype change of
        Delete \<Rightarrow> Inr (True, w\<lparr> currentChange := Some (change, 0) \<rparr>)
      | Unchanged \<Rightarrow> Inr (False, w)
      | _ \<Rightarrow>
          (case getCellViewModel w change of
             Inl err \<Rightarrow> Inl err
           | Inr cellViewModel \<Rightarrow>
               Inr (True, if cellViewModel \<noteq> None
                          then w\<lparr> currentChange := Some (change, indexInCell) \<rparr> else w)))"

definition revealFirstOrLast ::
  "'i nb_env \<Rightarrow> 'i widget \<Rightarrow> cell_diff_info \<Rightarrow> bool \<Rightarrow> nb_error + bool \<times> 'i widget" where
  "revealFirstOrLast env w change firstOrLast =
     (case ctype change of
        Delete \<Rightarrow> Inr (True, w\<lparr> currentChange := Some (change, 0) \<rparr>)
      | Unchanged \<Rightarrow> Inr (False, w)
      | _ \<Rightarrow>
          let index = (if firstOrLast \<or> ctype change = Insert then 0
                       else int (length (diff_changes change)) - 1)
          in (case getCell w (modifiedCellIndex change) of
                Some (i, cellIntegration) \<Rightarrow>
                  Inr (True, w\<lparr> cellEditorIntegrations :=
                                  (cellEditorIntegrations w)(i \<mapsto> ci_reveal env firstOrLast cellIntegration),
                                currentChange := Some (change, index) \<rparr>)
              | None \<Rightarrow> revealChange w change index))"

text \<open>
  How the \<open>switch\<close> of \<open>next\<close> and of \<open>previous\<close> is left: through a \<open>return\<close> of
  what a reveal answered or threw, or through \<open>break\<close>, with the state reached.
\<close>

datatype 'w switch_exit =
    Returned "nb_error + bool \<times> 'w"
  | Broke 'w

definition next_switch ::
  "'i nb_env \<Rightarrow> cell_diff_info list \<Rightarrow> cell_diff_info \<times> int \<Rightarrow> 'i widget
     \<Rightarrow> 'i widget switch_exit" where
  "next_switch env changes cc w =
     (let (current, index) = cc in
      case ctype current of
        Modified \<Rightarrow>
          (let stepped = (case getCell w (modifiedCellIndex current) of
                            None \<Rightarrow> (None, w)
                          | Some (i, cellIntegration) \<Rightarrow>
                              let (moved, ci) = ci_next env cellIntegration;
                                  w1 = w\<lparr> cellEditorIntegrations :=
                                           (cellEditorIntegrations w)(i \<mapsto> ci) \<rparr>
                              in (if moved then Some (ci_currentIndex env ci) else None, w1))
           in case stepped of
                (Some k, w1) \<Rightarrow> Returned (Inr (True, w1\<lparr> currentChange := Some (current, k) \<rparr>))
              | (None, w1) \<Rightarrow>
                  let isLastChangeInCell = (index = lastChangeIndex current);
                      index' = (if isLastChangeInCell then 0 else index + 1);
                      change = (if isLastChangeInCell
                                then at_index changes (indexOf changes current + 1)
                                else Some current)
                  in (case change of
                        Some c \<Rightarrow> Returned (revealChange w1 c index')
                      | None \<Rightarrow> Broke w1))
      | Unchanged \<Rightarrow> Broke w
      | _ \<Rightarrow>
          (case at_index changes (indexOf changes current + 1) of
             Some nextChange \<Rightarrow> Returned (revealFirstOrLast env w nextChange True)
           | None \<Rightarrow> Broke w))"

text \<open>\<open>next(wrap)\<close>. The name \<open>next\<close> is a keyword of Isabelle.\<close>

function next_change ::
  "'i nb_env \<Rightarrow> bool \<Rightarrow> 'i widget \<Rightarrow> nb_error + bool \<times> 'i widget" where
  "next_change env wrap w =
     (let changes = sorted_changes env w in
      case currentChange w of
        None \<Rightarrow>
          (case at_index changes 0 of
             Some firstChange \<Rightarrow> revealFirstOrLast env w firstChange True
           | None \<Rightarrow> Inr (False, w))
      | Some cc \<Rightarrow>
          (case next_switch env changes cc w of
             Returned returned \<Rightarrow> returned
           | Broke w1 \<Rightarrow> if wrap then next_change env False w1 else Inr (False, w1)))"
  by pat_completeness auto
termination
  by (relation "measure (\<lambda>(env, wrap, w). if wrap then 1 else 0)") auto

definition previous_switch ::
  "'i nb_env \<Rightarrow> cell_diff_info list \<Rightarrow> cell_diff_info \<times> int \<Rightarrow> 'i widget
     \<Rightarrow> 'i widget switch_exit" where
  "previous_switch env changes cc w =
     (let (current, index) = cc in
      case ctype current of
        Modified \<Rightarrow>
          (let stepped = (case getCell w (modifiedCellIndex current) of
                            None \<Rightarrow> (None, w)
                          | Some (i, cellIntegration) \<Rightarrow>
                              let (moved, ci) = ci_previous env cellIntegration;
                                  w1 = w\<lparr> cellEditorIntegrations :=
                                           (cellEditorIntegrations w)(i \<mapsto> ci) \<rparr>
                              in (if moved then Some (ci_currentIndex env ci) else None, w1))
           in case stepped of
                (Some k, w1) \<Rightarrow> Returned (Inr (True, w1\<lparr> currentChange := Some (current, k) \<rparr>))
              | (None, w1) \<Rightarrow>
                  let isFirstChangeInCell = (index = 0);
                      change = (if isFirstChangeInCell
                                then at_index changes (indexOf changes current - 1)
                                else Some current)
                  in (case change of
                        Some c \<Rightarrow>
                          Returned (revealChange w1 c
                            (if isFirstChangeInCell then lastChangeIndex c else index - 1))
                      | None \<Rightarrow> Broke w1))
      | Unchanged \<Rightarrow> Broke w
      | _ \<Rightarrow>
          (case at_index changes (indexOf changes current - 1) of
             Some prevChange \<Rightarrow> Returned (revealFirstOrLast env w prevChange False)
           | None \<Rightarrow> Broke w))"

text \<open>\<open>previous(wrap)\<close>.\<close>

definition previous ::
  "'i nb_env \<Rightarrow> bool \<Rightarrow> 'i widget \<Rightarrow> nb_error + bool \<times> 'i widget" where
  "previous env wrap w =
     (let changes = sorted_changes env w in
      case currentChange w of
        None \<Rightarrow>
          (case at_index changes (int (length changes) - 1) of
             Some lastChange \<Rightarrow> revealFirstOrLast env w lastChange False
           | None \<Rightarrow> Inr (False, w))
      | Some cc \<Rightarrow>
          (case previous_switch env changes cc w of
             Returned returned \<Rightarrow> returned
           | Broke w1 \<Rightarrow>
               if wrap
               then (case at_index changes (int (length changes) - 1) of
                       Some lastChange \<Rightarrow> revealFirstOrLast env w1 lastChange False
                     | None \<Rightarrow> Inr (False, w1))
               else Inr (False, w1)))"

section \<open>Prompt reference errors: \<open>RecursiveReference\<close>\<close>

text \<open>
  Modelled from the spec: \<open>assert\<close> comes from \<open>base/common/assert\<close>, which is not among
  the sources. A failed assertion throws an error that carries the message it was
  given; a successful one does nothing.
\<close>

datatype assertion_error = AssertionFailed string

definition assert :: "bool \<Rightarrow> string \<Rightarrow> assertion_error + unit" where
  "assert condition message = (if condition then Inr () else Inl (AssertionFailed message))"

text \<open>The decimal digits of a number, for the template strings.\<close>

function string_of_nat :: "nat \<Rightarrow> string" where
  "string_of_nat n =
     (if n < 10 then [char_of (48 + n)]
      else string_of_nat (n div 10) @ [char_of (48 + n mod 10)])"
  by pat_completeness auto
termination
  by (relation "measure id") auto

text \<open>\<open>Array.prototype.join\<close>.\<close>

fun join :: "string \<Rightarrow> string list \<Rightarrow> string" where
  "join sep [] = []"
| "join sep [x] = x"
| "join sep (x # y # ys) = x @ sep @ join sep (y # ys)"

definition DEFAULT_RECURSIVE_PATH_JOIN_CHAR :: string where
  "DEFAULT_RECURSIVE_PATH_JOIN_CHAR = '' -> ''"

definition apostrophe :: string where
  "apostrophe = [CHR 0x27]"

record recursive_reference =
  rr_uri :: uri
  rr_message :: string
  errorType :: string
  recursivePath :: "string list"

text \<open>The constructor of \<open>RecursiveReference\<close>.\<close>

definition RecursiveReference ::
  "uri \<Rightarrow> string list \<Rightarrow> assertion_error + recursive_reference" where
  "RecursiveReference u path =
     (case assert (length path \<ge> 2)
             (''Recursive path must contain at least two paths, got '' @ apostrophe
              @ string_of_nat (length path) @ apostrophe @ ''.'') of
        Inl e \<Rightarrow> Inl e
      | Inr _ \<Rightarrow>
          let pathString = join DEFAULT_RECURSIVE_PATH_JOIN_CHAR path
          in Inr \<lparr> rr_uri = u,
                   rr_message = ''Recursive references found: '' @ pathString @ ''.'',
                   errorType = ''RecursiveReferenceError'',
                   recursivePath = path \<rparr>)"

section \<open>Concrete inputs\<close>

text \<open>
  A workspace folder \<open>file:///w\<close> whose MCP configuration is the resource
  \<open>file:///w/.vscode/mcp.json\<close>, with one installed server \<open>a\<close>; a second folder
  \<open>file:///v\<close> with a server \<open>b\<close>; and a user profile whose resource is
  \<open>file:///user/mcp.json\<close>.
\<close>

definition ex_toResource :: "workspace_folder \<Rightarrow> uri" where
  "ex_toResource folder = folder_uri folder @ ''/.vscode/mcp.json''"

definition ex_folder_w :: workspace_folder where
  "ex_folder_w = \<lparr> folder_uri = ''file:///w'' \<rparr>"

definition ex_folder_v :: workspace_folder where
  "ex_folder_v = \<lparr> folder_uri = ''file:///v'' \<rparr>"

definition ex_R :: uri where
  "ex_R = ''file:///w/.vscode/mcp.json''"

definition ex_server_a :: local_server where
  "ex_server_a = \<lparr> name = ''a'', mcpResource = ''file:///w/.vscode/mcp.json'', config = ''{}'' \<rparr>"

definition ex_server_b :: local_server where
  "ex_server_b = \<lparr> name = ''b'', mcpResource = ''file:///v/.vscode/mcp.json'', config = ''{}'' \<rparr>"

definition ex_server_u :: local_server where
  "ex_server_u = \<lparr> name = ''u'', mcpResource = ''file:///user/mcp.json'', config = ''{}'' \<rparr>"


definition ex_fetch_failing :: fetcher where
  "ex_fetch_failing r = Inl (ServiceError ''read failed'')"

text \<open>The service of \<open>file:///w\<close> fails, the service of \<open>file:///v\<close> answers.\<close>

definition ex_fetch_w_failing :: fetcher where
  "ex_fetch_w_failing r =
     (if r = ''file:///w/.vscode/mcp.json'' then Inl (ServiceError ''read failed'')
      else if r = ''file:///v/.vscode/mcp.json'' then Inr [ex_server_b]
      else Inr [])"

text \<open>The aggregator after the folder \<open>file:///w\<close> was added.\<close>

definition ex_registered :: ws_state where
  "ex_registered =
     addWorkspaceService ex_R TARGET_WORKSPACE_FOLDER (Inr [ex_server_a]) ws_initial"

text \<open>A per-resource \<open>install\<close> that succeeds and fires its two events.\<close>

definition ex_svc_install :: svc_installer where
  "ex_svc_install service server opts =
     (let l = \<lparr> name = server, mcpResource = svc_mcpResource service, config = ''{}'' \<rparr>;
          e = \<lparr> ev_name = server, ev_mcpResource = svc_mcpResource service \<rparr>
      in (Inr l, [SvcInstall e,
                  SvcDidInstall [\<lparr> res_name = server,
                                   res_mcpResource = svc_mcpResource service,
                                   res_local = Some l \<rparr>]]))"

definition ex_profile :: profile where
  "ex_profile = \<lparr> profile_id = ''default'', isDefault = True,
     profile_mcpResource = ''file:///user/mcp.json'',
     extensionsResource = ''file:///user/extensions.json'' \<rparr>"

text \<open>A facade without a remote connection, in a single-folder workspace.\<close>

definition ex_env :: facade_env where
  "ex_env = \<lparr> isEqual = (=), currentProfile = ex_profile, profiles = [ex_profile],
     getRemoteProfile = (\<lambda>p. p), getRemoteProfiles = [],
     workspace_configuration = None, toResource = ex_toResource,
     mcpManagementService = (\<lambda>r. if r = ''file:///user/mcp.json'' then Inr [ex_server_u] else Inr []),
     remoteMcpManagementService = None \<rparr>"






text \<open>
  An install event of the workspace folder's resource, an install event of the user
  profile's resource, and a batch holding one result of each.
\<close>

definition ex_event_a :: mcp_event where
  "ex_event_a = \<lparr> ev_name = ''a'', ev_mcpResource = ''file:///w/.vscode/mcp.json'' \<rparr>"

definition ex_event_u :: mcp_event where
  "ex_event_u = \<lparr> ev_name = ''u'', ev_mcpResource = ''file:///user/mcp.json'' \<rparr>"

definition ex_batch :: "local_server install_result list" where
  "ex_batch = [to_install_result ex_server_u, to_install_result ex_server_a]"

text \<open>
  A notebook of two cells, with the handles 10 and 11, both inserted, both shown by the
  view model and neither with an attached cell integration. The sort orders changes by
  their cell index, which leaves this list as it is.
\<close>

definition ex_cell_index :: "cell_diff_info \<Rightarrow> nat" where
  "ex_cell_index c =
     (case modifiedCellIndex c of
        Some i \<Rightarrow> i
      | None \<Rightarrow> (case originalCellIndex c of Some j \<Rightarrow> j | None \<Rightarrow> 0))"

definition ex_nb_env :: "unit nb_env" where
  "ex_nb_env = \<lparr> sortCellChanges = sort_key ex_cell_index,
     ci_next = (\<lambda>ci. (False, ci)), ci_previous = (\<lambda>ci. (False, ci)),
     ci_reveal = (\<lambda>firstOrLast ci. ci), ci_currentIndex = (\<lambda>ci. 0) \<rparr>"

definition ex_insert_0 :: cell_diff_info where
  "ex_insert_0 = \<lparr> ctype = Insert, modifiedCellIndex = Some 0, originalCellIndex = None,
     diff_changes = [(1, 3)] \<rparr>"

definition ex_insert_1 :: cell_diff_info where
  "ex_insert_1 = \<lparr> ctype = Insert, modifiedCellIndex = Some 1, originalCellIndex = None,
     diff_changes = [(1, 2)] \<rparr>"

definition ex_widget :: "(cell_diff_info \<times> int) option \<Rightarrow> unit widget" where
  "ex_widget current = \<lparr> cellChanges = [ex_insert_0, ex_insert_1], currentChange = current,
     notebookCells = [10, 11], cellEditorIntegrations = Map.empty,
     viewCells = Some [10, 11] \<rparr>"

section \<open>Properties of the workspace aggregator\<close>

text \<open>
  C9. \<open>installFromGallery\<close> of the workspace aggregator and of the per-resource workspace
  service fails with the error "Not supported" for every server, every options value and
  in every state, and leaves the state as it was.
\<close>

theorem installFromGallery_not_supported:
  "Workspace_installFromGallery server options st = (Inl NotSupported, st)
   \<and> WorkspaceResource_installFromGallery server options s = (Inl NotSupported, s)"
  by (simp add: Workspace_installFromGallery_def WorkspaceResource_installFromGallery_def)

text \<open>
  C5. \<open>install(server, options)\<close> of the workspace aggregator: without options or without
  \<open>options.mcpResource\<close> it fails with "MCP resource is required"; with a resource that
  has no entry in the registry it fails with "No MCP management service found"; in both
  cases the state (aggregate list, registry, emitted events) is the state before the call.
  With a registered resource the result is the result of that resource's service.
\<close>

theorem Workspace_install_unresolved_or_delegated:
  "(options = None \<or> (\<exists>opts. options = Some opts \<and> opt_mcpResource opts = None)
      \<longrightarrow> Workspace_install isEq svc_install server options st = (Inl McpResourceRequired, st))
   \<and> (\<forall>opts r. options = Some opts \<and> opt_mcpResource opts = Some r
          \<and> workspaceMcpManagementServices st r = None
      \<longrightarrow> Workspace_install isEq svc_install server options st = (Inl (NoServiceFound r), st))
   \<and> (\<forall>opts r item. options = Some opts \<and> opt_mcpResource opts = Some r
          \<and> workspaceMcpManagementServices st r = Some item
      \<longrightarrow> fst (Workspace_install isEq svc_install server options st)
            = fst (svc_install item server opts))"
proof (intro conjI allI impI)
  assume "options = None \<or> (\<exists>opts. options = Some opts \<and> opt_mcpResource opts = None)"
  then show "Workspace_install isEq svc_install server options st = (Inl McpResourceRequired, st)"
    by (auto simp: Workspace_install_def)
next
  fix opts r
  assume "options = Some opts \<and> opt_mcpResource opts = Some r
          \<and> workspaceMcpManagementServices st r = None"
  then show "Workspace_install isEq svc_install server options st = (Inl (NoServiceFound r), st)"
    by (simp add: Workspace_install_def)
next
  fix opts r item
  assume "options = Some opts \<and> opt_mcpResource opts = Some r
          \<and> workspaceMcpManagementServices st r = Some item"
  then show "fst (Workspace_install isEq svc_install server options st)
            = fst (svc_install item server opts)"
    by (simp add: Workspace_install_def split: prod.splits)
qed

lemma ex_registered_registry:
  "workspaceMcpManagementServices ex_registered
     = [ex_R \<mapsto> \<lparr> svc_target = TARGET_WORKSPACE_FOLDER, svc_mcpResource = ex_R \<rparr>]"
  by (simp add: ex_registered_def addWorkspaceService_def addWorkspaceService_settled_def ws_initial_def emit_def
      ex_server_a_def Let_def)

theorem Workspace_install_unresolved_or_delegated_witness:
  "Workspace_install (=) ex_svc_install ''srv'' None ex_registered
     = (Inl McpResourceRequired, ex_registered)
   \<and> Workspace_install (=) ex_svc_install ''srv''
        (Some \<lparr> opt_mcpResource = Some ''file:///other/.vscode/mcp.json'' \<rparr>) ex_registered
     = (Inl (NoServiceFound ''file:///other/.vscode/mcp.json''), ex_registered)
   \<and> fst (Workspace_install (=) ex_svc_install ''srv''
        (Some \<lparr> opt_mcpResource = Some ex_R \<rparr>) ex_registered)
     = Inr \<lparr> name = ''srv'', mcpResource = ex_R, config = ''{}'' \<rparr>"
proof -
  have unregistered:
    "workspaceMcpManagementServices ex_registered ''file:///other/.vscode/mcp.json'' = None"
    by (simp add: ex_registered_registry ex_R_def)
  have registered:
    "workspaceMcpManagementServices ex_registered ex_R
       = Some \<lparr> svc_target = TARGET_WORKSPACE_FOLDER, svc_mcpResource = ex_R \<rparr>"
    by (simp add: ex_registered_registry)
  show ?thesis
    using unregistered registered
      Workspace_install_unresolved_or_delegated
        [of None "(=)" ex_svc_install "''srv''" ex_registered]
      Workspace_install_unresolved_or_delegated
        [of "Some \<lparr> opt_mcpResource = Some ''file:///other/.vscode/mcp.json'' \<rparr>"
            "(=)" ex_svc_install "''srv''" ex_registered]
      Workspace_install_unresolved_or_delegated
        [of "Some \<lparr> opt_mcpResource = Some ex_R \<rparr>"
            "(=)" ex_svc_install "''srv''" ex_registered]
    by (simp add: ex_svc_install_def Let_def)
qed



subsection \<open>Failing fetches\<close>

lemma without_warnings_eq_iff:
  "without_warnings st = without_warnings st' \<longleftrightarrow>
     allMcpServers st = allMcpServers st'
     \<and> workspaceConfiguration st = workspaceConfiguration st'
     \<and> workspaceMcpManagementServices st = workspaceMcpManagementServices st'
     \<and> filter (\<lambda>e. \<not> is_warning e) (effects st) = filter (\<lambda>e. \<not> is_warning e) (effects st')"
  by (cases st; cases st') (auto simp: without_warnings_def)

lemma settle_call_failure_as_empty:
  "without_warnings (settle_call isEq c (Inl err) st)
     = without_warnings (settle_call isEq c (Inr []) st)"
  by (cases c)
     (simp_all add: without_warnings_eq_iff addWorkspaceService_settled_def
        removeWorkspaceService_settled_def emit_def Let_def)

text \<open>Settling the calls that are suspended, in their order, is a fold over them.\<close>

lemma settle_all_fold:
  "settle_all isEq toRes fetch sys
     = sys\<lparr> aggregator := foldl (\<lambda>st c. settle_call isEq c (fetch (call_resource c)) st)
                               (aggregator sys) (calls sys),
            calls := [] \<rparr>"
proof (induction "calls sys" arbitrary: sys)
  case Nil
  then show ?case by (simp add: settle_all_def)
next
  case (Cons c cs)
  let ?next = "settle_first isEq toRes fetch sys"
  have first: "?next = sys\<lparr> aggregator := settle_call isEq c (fetch (call_resource c)) (aggregator sys),
                            calls := cs \<rparr>"
    using Cons(2) [symmetric] by (simp add: settle_first_def splice1_def)
  then have rest: "cs = calls ?next" by simp
  have "settle_all isEq toRes fetch sys = settle_all isEq toRes fetch ?next"
    using Cons(2) [symmetric] first
    by (simp add: settle_all_def funpow_swap1)
  also have "\<dots> = ?next\<lparr> aggregator := foldl (\<lambda>st c. settle_call isEq c (fetch (call_resource c)) st)
                               (aggregator ?next) (calls ?next),
                          calls := [] \<rparr>"
    by (rule Cons(1) [OF rest])
  finally show ?case
    using Cons(2) [symmetric] first by simp
qed

text \<open>The registry and the list after the removals, and after the additions, of one batch.\<close>

lemma removals_registry:
  "workspaceMcpManagementServices
     (foldl (\<lambda>st c. settle_call isEq c (fetch (call_resource c)) st) st
        (removals_started toRes h folders st0)) r
   = (if \<exists>folder \<in> set folders. toRes folder = r
           \<and> workspaceMcpManagementServices st0 r \<noteq> None
      then None else workspaceMcpManagementServices st r)"
proof (induction folders arbitrary: st)
  case Nil
  then show ?case by (simp add: removals_started_def)
next
  case (Cons folder folders)
  have split: "removals_started toRes h (folder # folders) st0
                 = removals_started toRes h [folder] st0 @ removals_started toRes h folders st0"
    by (simp add: removals_started_def)
  show ?case
    unfolding split foldl_append Cons.IH
    by (cases "fetch (toRes folder)")
       (auto simp: removals_started_def removeWorkspaceService_settled_def emit_def Let_def
          split: option.splits)
qed

lemma additions_registry:
  "workspaceMcpManagementServices
     (foldl (\<lambda>st c. settle_call isEq c (fetch (call_resource c)) st) st
        (additions_started toRes folders st0)) r
   = (if \<exists>folder \<in> set folders. toRes folder = r
           \<and> workspaceMcpManagementServices st0 r = None
      then Some \<lparr> svc_target = TARGET_WORKSPACE_FOLDER, svc_mcpResource = r \<rparr>
      else workspaceMcpManagementServices st r)"
proof (induction folders arbitrary: st)
  case Nil
  then show ?case by (simp add: additions_started_def)
next
  case (Cons folder folders)
  have split: "additions_started toRes (folder # folders) st0
                 = additions_started toRes [folder] st0 @ additions_started toRes folders st0"
    by (simp add: additions_started_def)
  show ?case
    unfolding split foldl_append Cons.IH
    by (cases "fetch (toRes folder)")
       (auto simp: additions_started_def addWorkspaceService_settled_def emit_def Let_def)
qed

lemma additions_servers:
  "set (allMcpServers st)
     \<union> (\<Union>folder \<in> {folder \<in> set folders. workspaceMcpManagementServices st0 (toRes folder) = None}.
          set (installed_of fetch (toRes folder)))
   \<subseteq> set (allMcpServers
        (foldl (\<lambda>st c. settle_call isEq c (fetch (call_resource c)) st) st
           (additions_started toRes folders st0)))"
proof (induction folders arbitrary: st)
  case Nil
  then show ?case by (simp add: additions_started_def)
next
  case (Cons folder folders)
  have split: "additions_started toRes (folder # folders) st0
                 = additions_started toRes [folder] st0 @ additions_started toRes folders st0"
    by (simp add: additions_started_def)
  let ?st1 = "foldl (\<lambda>st c. settle_call isEq c (fetch (call_resource c)) st) st
                (additions_started toRes [folder] st0)"
  have first: "set (allMcpServers st)
                 \<union> (if workspaceMcpManagementServices st0 (toRes folder) = None
                    then set (installed_of fetch (toRes folder)) else {})
               \<subseteq> set (allMcpServers ?st1)"
    by (cases "fetch (toRes folder)")
       (auto simp: additions_started_def addWorkspaceService_settled_def emit_def Let_def
          installed_of_def)
  show ?case
    unfolding split foldl_append
    using Cons.IH [of ?st1] first by auto
qed

lemma handle_alone_quiescent:
  "handle_alone isEq toRes fetch e (quiescent st)
     = (let st1 = foldl (\<lambda>st c. settle_call isEq c (fetch (call_resource c)) st) st
                    (removals_started toRes 0 (removed e) st);
            st2 = foldl (\<lambda>st c. settle_call isEq c (fetch (call_resource c)) st) st1
                    (additions_started toRes (added e) st1)
        in \<lparr> aggregator = st2, calls = [], handlers = [], next_handler = Suc 0 \<rparr>)"
  by (simp add: handle_alone_def quiescent_def settle_all_fold Let_def)

text \<open>
  C7. When \<open>getInstalled()\<close> of a resource's service fails during registration, the failure
  is logged, the aggregate list stays as it was and the service is registered all the
  same; when it fails during deregistration, the failure is logged, the aggregate list
  stays as it was and the entry is deleted and disposed. In both cases the call goes on as
  if the service had reported no server, the warning apart. The call settles and does not
  reject: it leaves the suspended calls and every other suspended call stays where it is.
  A folder-change batch handled from start to end, whichever of its fetches fail, ends
  with no call suspended and no handler waiting, with every added folder registered, with
  every removed folder that is not added again unregistered, and with the servers of
  every newly added folder whose fetch succeeded in the aggregate list.
\<close>

theorem fetch_failure_is_tolerated:
  "(workspaceMcpManagementServices st r = None \<longrightarrow>
      allMcpServers (addWorkspaceService r t (Inl err) st) = allMcpServers st
      \<and> effects (addWorkspaceService r t (Inl err) st) = effects st @ [LogWarn r, RegistrySet r]
      \<and> workspaceMcpManagementServices (addWorkspaceService r t (Inl err) st) r \<noteq> None)
   \<and> (workspaceMcpManagementServices st r \<noteq> None \<longrightarrow>
      allMcpServers (removeWorkspaceService isEq r (Inl err) st) = allMcpServers st
      \<and> effects (removeWorkspaceService isEq r (Inl err) st)
          = effects st @ [LogWarn r, RegistryDelete r, Dispose r]
      \<and> workspaceMcpManagementServices (removeWorkspaceService isEq r (Inl err) st) r = None)
   \<and> without_warnings (settle_call isEq c (Inl err) st)
      = without_warnings (settle_call isEq c (Inr []) st)
   \<and> (i < length (calls sys) \<longrightarrow>
      calls (ws_step isEq toRes (Settle i (Inl err)) sys) = splice1 i (calls sys)
      \<and> handlers (ws_step isEq toRes (Settle i (Inl err)) sys) = handlers sys)
   \<and> calls (handle_alone isEq toRes fetch e (quiescent st)) = []
   \<and> handlers (handle_alone isEq toRes fetch e (quiescent st)) = []
   \<and> (\<forall>folder \<in> set (added e).
        workspaceMcpManagementServices
          (onDidChangeWorkspaceFolders isEq toRes fetch e st) (toRes folder) \<noteq> None)
   \<and> (\<forall>folder \<in> set (removed e).
        toRes folder \<notin> toRes ` set (added e) \<longrightarrow>
        workspaceMcpManagementServices
          (onDidChangeWorkspaceFolders isEq toRes fetch e st) (toRes folder) = None)
   \<and> (\<forall>folder \<in> set (added e). \<forall>servers.
        workspaceMcpManagementServices st (toRes folder) = None
        \<and> fetch (toRes folder) = Inr servers \<longrightarrow>
        set servers \<subseteq> set (allMcpServers (onDidChangeWorkspaceFolders isEq toRes fetch e st)))"
proof -
  let ?settle = "\<lambda>st c. settle_call isEq c (fetch (call_resource c)) st"
  let ?st1 = "foldl ?settle st (removals_started toRes 0 (removed e) st)"
  let ?st2 = "foldl ?settle ?st1 (additions_started toRes (added e) ?st1)"
  have result: "onDidChangeWorkspaceFolders isEq toRes fetch e st = ?st2"
    by (simp add: onDidChangeWorkspaceFolders_def handle_alone_quiescent Let_def)
  have after_removals: "workspaceMcpManagementServices ?st1 q = None"
    if "workspaceMcpManagementServices st q = None \<or> q \<in> toRes ` set (removed e)" for q
    using that by (auto simp: removals_registry)
  have added_registered: "workspaceMcpManagementServices ?st2 (toRes folder) \<noteq> None"
    if "folder \<in> set (added e)" for folder
    using that by (auto simp: additions_registry)
  have removed_unregistered: "workspaceMcpManagementServices ?st2 (toRes folder) = None"
    if "folder \<in> set (removed e)" "toRes folder \<notin> toRes ` set (added e)" for folder
  proof -
    have "\<not> (\<exists>other \<in> set (added e). toRes other = toRes folder)"
      using that(2) by (metis imageI)
    then have "workspaceMcpManagementServices ?st2 (toRes folder)
            = workspaceMcpManagementServices ?st1 (toRes folder)"
      by (simp add: additions_registry)
    also have "\<dots> = None" using that(1) by (intro after_removals) simp
    finally show ?thesis .
  qed
  have listed: "set servers \<subseteq> set (allMcpServers ?st2)"
    if "folder \<in> set (added e)" "workspaceMcpManagementServices st (toRes folder) = None"
      "fetch (toRes folder) = Inr servers" for folder servers
  proof -
    have "workspaceMcpManagementServices ?st1 (toRes folder) = None"
      using that(2) by (intro after_removals) simp
    with that(1) have "set (installed_of fetch (toRes folder)) \<subseteq> set (allMcpServers ?st2)"
      using additions_servers [where st = ?st1 and ?st0.0 = ?st1 and folders = "added e"
          and toRes = toRes and fetch = fetch and isEq = isEq]
      by blast
    with that(3) show ?thesis by (simp add: installed_of_def)
  qed
  have single:
    "workspaceMcpManagementServices st r = None \<longrightarrow>
      allMcpServers (addWorkspaceService r t (Inl err) st) = allMcpServers st
      \<and> effects (addWorkspaceService r t (Inl err) st) = effects st @ [LogWarn r, RegistrySet r]
      \<and> workspaceMcpManagementServices (addWorkspaceService r t (Inl err) st) r \<noteq> None"
    "workspaceMcpManagementServices st r \<noteq> None \<longrightarrow>
      allMcpServers (removeWorkspaceService isEq r (Inl err) st) = allMcpServers st
      \<and> effects (removeWorkspaceService isEq r (Inl err) st)
          = effects st @ [LogWarn r, RegistryDelete r, Dispose r]
      \<and> workspaceMcpManagementServices (removeWorkspaceService isEq r (Inl err) st) r = None"
    by (auto simp: addWorkspaceService_def addWorkspaceService_settled_def
        removeWorkspaceService_def removeWorkspaceService_settled_def emit_def Let_def)
  have step: "i < length (calls sys) \<longrightarrow>
      calls (ws_step isEq toRes (Settle i (Inl err)) sys) = splice1 i (calls sys)
      \<and> handlers (ws_step isEq toRes (Settle i (Inl err)) sys) = handlers sys"
    by simp
  have finished: "calls (handle_alone isEq toRes fetch e (quiescent st)) = []"
    "handlers (handle_alone isEq toRes fetch e (quiescent st)) = []"
    by (simp_all add: handle_alone_quiescent Let_def)
  show ?thesis
    unfolding result
    using single step finished settle_call_failure_as_empty [of isEq c err st]
      added_registered removed_unregistered listed
    by blast
qed

theorem fetch_failure_is_tolerated_witness:
  "effects (addWorkspaceService ex_R TARGET_WORKSPACE_FOLDER
              (Inl (ServiceError ''read failed'')) ws_initial)
     = [LogWarn ex_R, RegistrySet ex_R]
   \<and> allMcpServers (removeWorkspaceService (=) ex_R (Inl (ServiceError ''read failed''))
        ex_registered)
     = [ex_server_a]
   \<and> workspaceMcpManagementServices
        (removeWorkspaceService (=) ex_R (Inl (ServiceError ''read failed'')) ex_registered)
        ex_R = None
   \<and> workspaceMcpManagementServices
        (onDidChangeWorkspaceFolders (=) ex_toResource ex_fetch_w_failing
           \<lparr> added = [ex_folder_w, ex_folder_v], removed = [] \<rparr> ws_initial)
        ''file:///w/.vscode/mcp.json'' \<noteq> None
   \<and> workspaceMcpManagementServices
        (onDidChangeWorkspaceFolders (=) ex_toResource ex_fetch_w_failing
           \<lparr> added = [ex_folder_w, ex_folder_v], removed = [] \<rparr> ws_initial)
        ''file:///v/.vscode/mcp.json'' \<noteq> None
   \<and> set [ex_server_b]
       \<subseteq> set (allMcpServers
             (onDidChangeWorkspaceFolders (=) ex_toResource ex_fetch_w_failing
                \<lparr> added = [ex_folder_w, ex_folder_v], removed = [] \<rparr> ws_initial))"
proof -
  have unregistered: "workspaceMcpManagementServices ws_initial q = None" for q
    by (simp add: ws_initial_def)
  have silent: "effects ws_initial = []"
    by (simp add: ws_initial_def)
  have registered: "workspaceMcpManagementServices ex_registered ex_R \<noteq> None"
    by (simp add: ex_registered_registry)
  have servers: "allMcpServers ex_registered = [ex_server_a]"
    by (simp add: ex_registered_def addWorkspaceService_def addWorkspaceService_settled_def
        ws_initial_def emit_def ex_server_a_def Let_def)
  have answer: "ex_fetch_w_failing ''file:///v/.vscode/mcp.json'' = Inr [ex_server_b]"
    by (simp add: ex_fetch_w_failing_def)
  show ?thesis
    using unregistered silent registered servers answer
      fetch_failure_is_tolerated [where st = ws_initial and r = ex_R
        and t = TARGET_WORKSPACE_FOLDER and err = "ServiceError ''read failed''"
        and isEq = "(=)" and toRes = ex_toResource and fetch = ex_fetch_w_failing
        and e = "\<lparr> added = [ex_folder_w, ex_folder_v], removed = [] \<rparr>"]
      fetch_failure_is_tolerated [where st = ex_registered and r = ex_R
        and t = TARGET_WORKSPACE_FOLDER and err = "ServiceError ''read failed''"
        and isEq = "(=)" and toRes = ex_toResource and fetch = ex_fetch_w_failing
        and e = "\<lparr> added = [], removed = [] \<rparr>"]
    by (simp add: ex_toResource_def ex_folder_w_def ex_folder_v_def)
qed

subsection \<open>The aggregate list and the registry\<close>















lemma pending_additions_removals [simp]:
  "pending_additions (removals_started toRes h folders st) = []"
  by (induction folders) (auto simp: pending_additions_def removals_started_def split: option.splits)




text \<open>Every beginning of a steady run without races is one.\<close>

lemma steady_run_prefix:
  "steady_run fetch isEq toRes (acts @ later) sys \<Longrightarrow> steady_run fetch isEq toRes acts sys"
  by (induction acts arbitrary: sys) simp_all





section \<open>Properties of the facade\<close>

lemma truncate_toWorkspaceMcpServer [simp]:
  "local_server.truncate (toWorkspaceMcpServer server sc) = server"
  by (cases server)
     (simp add: toWorkspaceMcpServer_def local_server.truncate_def local_server.extend_def)

lemma scope_toWorkspaceMcpServer [simp]:
  "scope (toWorkspaceMcpServer server sc) = Some sc"
  by (simp add: toWorkspaceMcpServer_def local_server.extend_def)

text \<open>
  C3. Whenever the user service answers \<open>userServers\<close> and the remote service answers
  \<open>remoteServers\<close> (the empty list when there is no remote connection), \<open>getInstalled()\<close>
  of the facade returns the user servers, then the remote servers, then the servers of
  the workspace aggregator; every returned server is the server it came from with the
  scope of its service attached: \<open>User\<close>, \<open>RemoteUser\<close> or \<open>Workspace\<close>.
\<close>

theorem Workbench_getInstalled_concat:
  assumes "mcpManagementService env (profile_mcpResource (currentProfile env)) = Inr userServers"
    and "(case remoteMcpManagementService env of
            None \<Rightarrow> Inr []
          | Some remote_getInstalled \<Rightarrow> remote_getInstalled (getRemoteMcpResource env None))
         = Inr remoteServers"
  shows "\<exists>installed. Workbench_getInstalled env ws = Inr installed
     \<and> installed
         = map (\<lambda>server. toWorkspaceMcpServer server User) userServers
           @ map (\<lambda>server. toWorkspaceMcpServer server RemoteUser) remoteServers
           @ map (\<lambda>server. toWorkspaceMcpServer server Workspace) (Workspace_getInstalled ws)
     \<and> map local_server.truncate installed
         = userServers @ remoteServers @ Workspace_getInstalled ws
     \<and> map scope installed
         = replicate (length userServers) (Some User)
           @ replicate (length remoteServers) (Some RemoteUser)
           @ replicate (length (Workspace_getInstalled ws)) (Some Workspace)"
  using assms
  by (simp add: Workbench_getInstalled_def Let_def o_def map_replicate_const)

theorem Workbench_getInstalled_concat_witness:
  "Workbench_getInstalled ex_env ex_registered
     = Inr [toWorkspaceMcpServer ex_server_u User, toWorkspaceMcpServer ex_server_a Workspace]"
proof -
  have user:
    "mcpManagementService ex_env (profile_mcpResource (currentProfile ex_env)) = Inr [ex_server_u]"
    by (simp add: ex_env_def ex_profile_def)
  have remote:
    "(case remoteMcpManagementService ex_env of
        None \<Rightarrow> Inr []
      | Some remote_getInstalled \<Rightarrow> remote_getInstalled (getRemoteMcpResource ex_env None))
     = Inr []"
    by (simp add: ex_env_def)
  have ws: "Workspace_getInstalled ex_registered = [ex_server_a]"
    by (simp add: Workspace_getInstalled_def ex_registered_def addWorkspaceService_def addWorkspaceService_settled_def
        ws_initial_def emit_def ex_server_a_def Let_def)
  show ?thesis
    using Workbench_getInstalled_concat [OF user remote, of ex_registered] ws
    by auto
qed

text \<open>
  C6. \<open>install\<close> of the facade with the target \<open>USER_REMOTE\<close> while there is no remote
  service fails with "Illegal target"; the call ends there, so it delegates to no
  \<open>install\<close> of an underlying service.
\<close>

theorem Workbench_install_remote_without_connection:
  assumes "options = Some opts"
    and "target opts = Some (Target USER_REMOTE)"
    and "remoteMcpManagementService env = None"
  shows "Workbench_install env server options = Inl (IllegalTarget (Target USER_REMOTE))"
  using assms by (simp add: Workbench_install_def)

theorem Workbench_install_remote_without_connection_witness:
  "Workbench_install ex_env ''srv''
     (Some \<lparr> opt_mcpResource = None, target = Some (Target USER_REMOTE) \<rparr>)
   = Inl (IllegalTarget (Target USER_REMOTE))"
proof -
  have no_remote: "remoteMcpManagementService ex_env = None"
    by (simp add: ex_env_def)
  have tgt: "target \<lparr> opt_mcpResource = None, target = Some (Target USER_REMOTE) \<rparr>
               = Some (Target USER_REMOTE)"
    by simp
  show ?thesis
    using Workbench_install_remote_without_connection [OF refl tgt no_remote] by simp
qed

subsection \<open>Re-emission of the events of the underlying services\<close>

text \<open>
  The claim C4 as stated fails: an install event of the workspace aggregator is fired on
  the stream of the current profile although its resource is not the resource of the
  current profile.
\<close>

theorem workspace_event_in_current_profile_counterexample:
  "fired_on OnInstallMcpServerInCurrentProfile (workspace_onInstallMcpServer ex_env ex_event_a)
     = [Single ex_event_a]
   \<and> \<not> isEqual ex_env (ev_mcpResource ex_event_a) (profile_mcpResource (currentProfile ex_env))"
  by (simp add: fired_on_def workspace_onInstallMcpServer_def ex_env_def ex_event_a_def
      ex_profile_def)

lemmas user_listeners =
  user_onInstallMcpServer_def user_onUninstallMcpServer_def user_onDidUninstallMcpServer_def

lemmas workspace_listeners =
  workspace_onInstallMcpServer_def workspace_onUninstallMcpServer_def
  workspace_onDidUninstallMcpServer_def

lemmas remote_listeners =
  remote_onInstallMcpServer_def remote_onUninstallMcpServer_def
  remote_onDidUninstallMcpServer_def

lemma user_batch_all_scopes:
  "fired_on OnDidInstallMcpServers (user_onDidInstallMcpServers env b)
     = [Batch (map (workbenchResult User) b)]"
  by (simp add: user_onDidInstallMcpServers_def fired_on_def Let_def)

lemma user_batch_current_profile:
  "fired_on OnDidInstallMcpServersInCurrentProfile (user_onDidInstallMcpServers env b)
     = (if \<exists>result \<in> set b. inCurrentProfile env (res_mcpResource result)
        then [Batch (map (workbenchResult User)
                (filter (\<lambda>result. inCurrentProfile env (res_mcpResource result)) b))]
        else [])"
  by (auto simp: user_onDidInstallMcpServers_def fired_on_def Let_def filter_empty_conv)

text \<open>
  C4, amended. Every install, uninstall and did-uninstall event of an underlying service
  is fired once, as it is, on the corresponding stream of all scopes, and on no stream
  other than that one and the corresponding stream of the current profile. On the stream
  of the current profile it is fired once: from the user service exactly when its
  resource \<open>isEqual\<close> the resource of the current profile; from the workspace aggregator
  always; from the remote service exactly when its resource \<open>isEqual\<close> the remote
  counterpart of the current profile's resource or, when there is no counterpart, exactly
  when the current profile is the default one. A batch of install results of the user
  service is fired once on the stream of all scopes with every local server tagged
  \<open>User\<close>, and on the stream of the current profile reduced to the results whose
  resource \<open>isEqual\<close> the resource of the current profile, when there is such a result.
  The batches of the workspace aggregator and of the remote service are left out.
\<close>

theorem events_reemitted:
  "inCurrentProfile env r = isEqual env r (profile_mcpResource (currentProfile env))
   \<and> reemits OnInstallMcpServer OnInstallMcpServerInCurrentProfile (Single e)
       (inCurrentProfile env (ev_mcpResource e)) (user_onInstallMcpServer env e)
   \<and> reemits OnUninstallMcpServer OnUninstallMcpServerInCurrentProfile (Single e)
       (inCurrentProfile env (ev_mcpResource e)) (user_onUninstallMcpServer env e)
   \<and> reemits OnDidUninstallMcpServer OnDidUninstallMcpServerInCurrentProfile (Single e)
       (inCurrentProfile env (ev_mcpResource e)) (user_onDidUninstallMcpServer env e)
   \<and> reemits OnInstallMcpServer OnInstallMcpServerInCurrentProfile (Single e)
       True (workspace_onInstallMcpServer env e)
   \<and> reemits OnUninstallMcpServer OnUninstallMcpServerInCurrentProfile (Single e)
       True (workspace_onUninstallMcpServer env e)
   \<and> reemits OnDidUninstallMcpServer OnDidUninstallMcpServerInCurrentProfile (Single e)
       True (workspace_onDidUninstallMcpServer env e)
   \<and> reemits OnInstallMcpServer OnInstallMcpServerInCurrentProfile (Single e)
       (inCurrentRemoteProfile env (ev_mcpResource e)) (remote_onInstallMcpServer env e)
   \<and> reemits OnUninstallMcpServer OnUninstallMcpServerInCurrentProfile (Single e)
       (inCurrentRemoteProfile env (ev_mcpResource e)) (remote_onUninstallMcpServer env e)
   \<and> reemits OnDidUninstallMcpServer OnDidUninstallMcpServerInCurrentProfile (Single e)
       (inCurrentRemoteProfile env (ev_mcpResource e)) (remote_onDidUninstallMcpServer env e)
   \<and> fired_on OnDidInstallMcpServers (user_onDidInstallMcpServers env b)
       = [Batch (map (workbenchResult User) b)]
   \<and> fired_on OnDidInstallMcpServersInCurrentProfile (user_onDidInstallMcpServers env b)
       = (if \<exists>result \<in> set b. inCurrentProfile env (res_mcpResource result)
          then [Batch (map (workbenchResult User)
                  (filter (\<lambda>result. inCurrentProfile env (res_mcpResource result)) b))]
          else [])"
proof -
  have user: "reemits OnInstallMcpServer OnInstallMcpServerInCurrentProfile (Single e)
       (inCurrentProfile env (ev_mcpResource e)) (user_onInstallMcpServer env e)"
    "reemits OnUninstallMcpServer OnUninstallMcpServerInCurrentProfile (Single e)
       (inCurrentProfile env (ev_mcpResource e)) (user_onUninstallMcpServer env e)"
    "reemits OnDidUninstallMcpServer OnDidUninstallMcpServerInCurrentProfile (Single e)
       (inCurrentProfile env (ev_mcpResource e)) (user_onDidUninstallMcpServer env e)"
    by (simp_all add: reemits_def user_listeners fired_on_def)
  have workspace: "reemits OnInstallMcpServer OnInstallMcpServerInCurrentProfile (Single e)
       True (workspace_onInstallMcpServer env e)"
    "reemits OnUninstallMcpServer OnUninstallMcpServerInCurrentProfile (Single e)
       True (workspace_onUninstallMcpServer env e)"
    "reemits OnDidUninstallMcpServer OnDidUninstallMcpServerInCurrentProfile (Single e)
       True (workspace_onDidUninstallMcpServer env e)"
    by (simp_all add: reemits_def workspace_listeners fired_on_def)
  have remote: "reemits OnInstallMcpServer OnInstallMcpServerInCurrentProfile (Single e)
       (inCurrentRemoteProfile env (ev_mcpResource e)) (remote_onInstallMcpServer env e)"
    "reemits OnUninstallMcpServer OnUninstallMcpServerInCurrentProfile (Single e)
       (inCurrentRemoteProfile env (ev_mcpResource e)) (remote_onUninstallMcpServer env e)"
    "reemits OnDidUninstallMcpServer OnDidUninstallMcpServerInCurrentProfile (Single e)
       (inCurrentRemoteProfile env (ev_mcpResource e)) (remote_onDidUninstallMcpServer env e)"
    by (simp_all add: reemits_def remote_listeners fired_on_def)
  show ?thesis
    using user workspace remote user_batch_all_scopes [of env b]
      user_batch_current_profile [of env b]
    by (simp add: inCurrentProfile_def)
qed

theorem events_reemitted_witness:
  "fired_on OnInstallMcpServer (user_onInstallMcpServer ex_env ex_event_u) = [Single ex_event_u]
   \<and> fired_on OnInstallMcpServerInCurrentProfile (user_onInstallMcpServer ex_env ex_event_u)
       = [Single ex_event_u]
   \<and> fired_on OnInstallMcpServerInCurrentProfile (user_onInstallMcpServer ex_env ex_event_a)
       = []
   \<and> fired_on OnDidInstallMcpServersInCurrentProfile (user_onDidInstallMcpServers ex_env ex_batch)
       = [Batch [workbenchResult User (to_install_result ex_server_u)]]"
proof -
  have mine: "inCurrentProfile ex_env (ev_mcpResource ex_event_u)"
    and other: "\<not> inCurrentProfile ex_env (ev_mcpResource ex_event_a)"
    by (simp_all add: inCurrentProfile_def ex_env_def ex_profile_def ex_event_u_def
        ex_event_a_def)
  have batch: "filter (\<lambda>result. inCurrentProfile ex_env (res_mcpResource result)) ex_batch
                 = [to_install_result ex_server_u]"
    by (simp add: inCurrentProfile_def ex_env_def ex_profile_def ex_batch_def
        to_install_result_def ex_server_u_def ex_server_a_def)
  have some: "\<exists>result \<in> set ex_batch. inCurrentProfile ex_env (res_mcpResource result)"
    by (simp add: inCurrentProfile_def ex_env_def ex_profile_def ex_batch_def
        to_install_result_def ex_server_u_def)
  show ?thesis
    using mine other batch some
      events_reemitted [of ex_env "ev_mcpResource ex_event_u" ex_event_u ex_batch]
      events_reemitted [of ex_env "ev_mcpResource ex_event_a" ex_event_a ex_batch]
    by (simp add: reemits_def)
qed

text \<open>
  The two batch listeners that the amended statement leaves out: a batch of the
  workspace aggregator or of the remote service never reaches the stream of all scopes,
  and the whole batch is fired on the stream of the current profile (twice from the
  workspace aggregator), unlike the batch of the user service.
\<close>

lemma batch_listeners_miss_all_scopes:
  "fired_on OnDidInstallMcpServers (workspace_onDidInstallMcpServers env b) = []
   \<and> fired_on OnDidInstallMcpServersInCurrentProfile (workspace_onDidInstallMcpServers env b)
       = [Batch (map (workbenchResult Workspace) b), Batch (map (workbenchResult Workspace) b)]
   \<and> fired_on OnDidInstallMcpServers (remote_onDidInstallMcpServers env b) = []
   \<and> hd (fired_on OnDidInstallMcpServersInCurrentProfile (remote_onDidInstallMcpServers env b))
       = Batch (map (workbenchResult RemoteUser) b)"
  by (simp add: workspace_onDidInstallMcpServers_def remote_onDidInstallMcpServers_def
      fired_on_def Let_def)

section \<open>Properties of the notebook diff navigation\<close>

lemma ex_sorted_changes: "sorted_changes ex_nb_env (ex_widget current) = [ex_insert_0, ex_insert_1]"
  by (simp add: sorted_changes_def ex_nb_env_def ex_widget_def ex_insert_0_def ex_insert_1_def
      ex_cell_index_def)

lemma ex_insert_fields:
  "ctype ex_insert_0 = Insert" "ctype ex_insert_1 = Insert"
  "modifiedCellIndex ex_insert_0 = Some 0" "modifiedCellIndex ex_insert_1 = Some 1"
  "ex_insert_0 \<noteq> ex_insert_1" "ex_insert_1 \<noteq> ex_insert_0"
  by (simp_all add: ex_insert_0_def ex_insert_1_def)

lemma ex_widget_fields:
  "currentChange (ex_widget current) = current"
  "cellEditorIntegrations (ex_widget current) = Map.empty"
  "notebookCells (ex_widget current) = [10, 11]"
  "viewCells (ex_widget current) = Some [10, 11]"
  "(ex_widget current)\<lparr> currentChange := current' \<rparr> = ex_widget current'"
  by (simp_all add: ex_widget_def)

lemma ex_view_models:
  "getCellViewModel (ex_widget current) ex_insert_0 = Inr (Some 10)"
  "getCellViewModel (ex_widget current) ex_insert_1 = Inr (Some 11)"
  by (simp_all add: getCellViewModel_def at_index_def ex_insert_fields ex_widget_fields)

lemma ex_reveal:
  "revealFirstOrLast ex_nb_env (ex_widget current) ex_insert_0 firstOrLast
     = Inr (True, ex_widget (Some (ex_insert_0, 0)))"
  "revealFirstOrLast ex_nb_env (ex_widget current) ex_insert_1 firstOrLast
     = Inr (True, ex_widget (Some (ex_insert_1, 0)))"
  by (simp_all add: revealFirstOrLast_def revealChange_def getCell_def ex_view_models
      ex_insert_fields ex_widget_fields)

lemma ex_next_switch:
  "next_switch ex_nb_env [ex_insert_0, ex_insert_1] (ex_insert_0, 0) (ex_widget current)
     = Returned (Inr (True, ex_widget (Some (ex_insert_1, 0))))"
  "next_switch ex_nb_env [ex_insert_0, ex_insert_1] (ex_insert_1, 0) (ex_widget current)
     = Broke (ex_widget current)"
  by (simp_all add: next_switch_def at_index_def ex_insert_fields ex_reveal)

lemma ex_previous_switch:
  "previous_switch ex_nb_env [ex_insert_0, ex_insert_1] (ex_insert_1, 0) (ex_widget current)
     = Returned (Inr (True, ex_widget (Some (ex_insert_0, 0))))"
  "previous_switch ex_nb_env [ex_insert_0, ex_insert_1] (ex_insert_0, 0) (ex_widget current)
     = Broke (ex_widget current)"
  by (simp_all add: previous_switch_def at_index_def ex_insert_fields ex_reveal)

text \<open>
  C8 at a concrete input. The sorted changes are two inserted cells and the current
  change is the last of them: \<open>next(true)\<close> answers \<open>false\<close> and leaves the current
  change where it is, because its last statement calls \<open>next(false)\<close> on the same
  state. \<open>previous(true)\<close> from the first change does cycle to the last one.
\<close>

theorem next_change_does_not_wrap:
  "next_change ex_nb_env True (ex_widget (Some (ex_insert_1, 0)))
     = Inr (False, ex_widget (Some (ex_insert_1, 0)))
   \<and> previous ex_nb_env True (ex_widget (Some (ex_insert_0, 0)))
     = Inr (True, ex_widget (Some (ex_insert_1, 0)))"
proof -
  let ?last = "ex_widget (Some (ex_insert_1, 0))"
  have no_wrap: "next_change ex_nb_env False ?last = Inr (False, ?last)"
    by (subst next_change.simps)
       (simp add: ex_sorted_changes ex_widget_fields ex_next_switch)
  have "next_change ex_nb_env True ?last = next_change ex_nb_env False ?last"
    by (subst next_change.simps)
       (simp add: ex_sorted_changes ex_widget_fields ex_next_switch)
  moreover have "previous ex_nb_env True (ex_widget (Some (ex_insert_0, 0)))
     = Inr (True, ?last)"
    by (simp add: previous_def ex_sorted_changes ex_widget_fields ex_previous_switch
        at_index_def ex_reveal)
  ultimately show ?thesis using no_wrap by simp
qed

text \<open>Inside the sequence \<open>next\<close> moves to the adjacent change, whatever \<open>wrap\<close> is.\<close>

lemma ex_next_from_first:
  "next_change ex_nb_env wrap (ex_widget (Some (ex_insert_0, 0)))
     = Inr (True, ex_widget (Some (ex_insert_1, 0)))"
  by (subst next_change.simps)
     (simp add: ex_sorted_changes ex_widget_fields ex_next_switch)

text \<open>
  In general: when the current change is not a modified cell, \<open>wrap\<close> has no effect on
  \<open>next\<close>.
\<close>

lemma next_switch_break_unchanged:
  assumes "ctype (fst cc) \<noteq> Modified" and "next_switch env changes cc w = Broke w1"
  shows "w1 = w"
  using assms
  by (cases cc; cases "ctype (fst cc)")
     (auto simp: next_switch_def split: option.splits)

lemma next_change_wrap_ignored:
  assumes "currentChange w = Some cc" and "ctype (fst cc) \<noteq> Modified"
  shows "next_change env True w = next_change env False w"
proof (cases "next_switch env (sorted_changes env w) cc w")
  case (Returned returned)
  then show ?thesis
    using assms(1) by (subst (1 2) next_change.simps) simp
next
  case (Broke w1)
  then have "w1 = w" using assms(2) by (rule next_switch_break_unchanged [rotated])
  with Broke show ?thesis
    using assms(1) by (subst next_change.simps) simp
qed

section \<open>Properties of the prompt reference errors\<close>

text \<open>
  C10. Constructing a \<open>RecursiveReference\<close> with a recursive path of fewer than two
  entries fails the assertion and throws; with two or more entries it succeeds; so every
  constructed \<open>RecursiveReference\<close> holds the path it was given, of length at least two.
\<close>

theorem RecursiveReference_requires_two:
  "(length path < 2 \<longrightarrow> (\<exists>e. RecursiveReference u path = Inl e))
   \<and> (2 \<le> length path \<longrightarrow> (\<exists>r. RecursiveReference u path = Inr r))
   \<and> (\<forall>r. RecursiveReference u path = Inr r
          \<longrightarrow> recursivePath r = path \<and> 2 \<le> length (recursivePath r))"
proof (cases "2 \<le> length path")
  case True
  then have "RecursiveReference u path
               = Inr \<lparr> rr_uri = u,
                       rr_message = ''Recursive references found: ''
                         @ join DEFAULT_RECURSIVE_PATH_JOIN_CHAR path @ ''.'',
                       errorType = ''RecursiveReferenceError'',
                       recursivePath = path \<rparr>"
    by (simp add: RecursiveReference_def assert_def)
  with True show ?thesis by auto
next
  case False
  then have "\<exists>e. RecursiveReference u path = Inl e"
    by (simp add: RecursiveReference_def assert_def)
  with False show ?thesis by auto
qed

theorem RecursiveReference_requires_two_witness:
  "(\<exists>e. RecursiveReference ''file:///a.md'' [''a.md''] = Inl e)
   \<and> (\<exists>e. RecursiveReference ''file:///a.md'' [] = Inl e)
   \<and> (\<exists>r. RecursiveReference ''file:///a.md'' [''a.md'', ''b.md'', ''a.md''] = Inr r
          \<and> recursivePath r = [''a.md'', ''b.md'', ''a.md''])"
  using RecursiveReference_requires_two [of "[''a.md'']" "''file:///a.md''"]
    RecursiveReference_requires_two [of "[]" "''file:///a.md''"]
    RecursiveReference_requires_two [of "[''a.md'', ''b.md'', ''a.md'']" "''file:///a.md''"]
  by auto

end
